theory Spec2Isabelle
  imports Complex_Main "HOL-Library.AList"
begin

section \<open>The LVM metadata cache of vdsm (lib/vdsm/storage/lvm.py)\<close>

text \<open>
  The development embeds the class \<open>LVMCache\<close>, the class \<open>CacheStats\<close> and the
  module-level mutation wrappers of \<open>lvm.py\<close>.  Python exceptions are values of the
  type \<open>error\<close>; every function that mutates the cache returns the cache it leaves
  behind together with its result, also when it raises.
\<close>

subsection \<open>Exceptions\<close>

text \<open>\<open>se.LVMCommandError\<close>: the command, its exit code, stdout and stderr.\<close>

datatype lvmerr =
  LVMErr (e_cmd: "string list") (e_rc: int) (e_out: "string list") (e_err: "string list")

datatype error =
    LVMCommandError lvmerr
  | InvalidOutputLine string string
  | InaccessiblePhysDev "string list" "lvmerr option"
  | VolumeGroupDoesNotExist string "lvmerr option"
  | LogicalVolumeDoesNotExistError string string "lvmerr option"
  | VolumeGroupCreateError lvmerr
  | VolumeGroupReduceError lvmerr
  | PhysDevInitializationError lvmerr
  | CouldNotMovePVData lvmerr
  | DeviceBlockSizeError "nat \<times> nat"
  | VolumeGroupBlockSizeError "nat \<times> nat" "nat \<times> nat"
  | AttributeError string
  | TypeError
  | ValueError
  | IndexError
  | KeyError
  | RuntimeError
  | ZeroDivisionError

subsection \<open>CacheStats\<close>

record CacheStats =
  hits :: nat
  misses :: nat

definition CacheStats_init :: CacheStats where
  "CacheStats_init = \<lparr>hits = 0, misses = 0\<rparr>"

definition miss :: "CacheStats \<Rightarrow> CacheStats" where
  "miss s = s\<lparr>misses := misses s + 1\<rparr>"

definition hit :: "CacheStats \<Rightarrow> CacheStats" where
  "hit s = s\<lparr>hits := hits s + 1\<rparr>"

definition clear :: "CacheStats \<Rightarrow> CacheStats" where
  "clear s = s\<lparr>hits := 0, misses := 0\<rparr>"

text \<open>
  Python's \<open>/\<close> on two ints raises ZeroDivisionError for a zero divisor and is the
  true quotient otherwise (here the exact rational, which Python rounds to a float).
\<close>

definition py_truediv :: "nat \<Rightarrow> nat \<Rightarrow> error + rat" where
  "py_truediv a b = (if b = 0 then Inl ZeroDivisionError else Inr (of_nat a / of_nat b))"

record stats_info =
  info_hits :: nat
  info_misses :: nat
  info_hit_ratio :: rat

definition info :: "CacheStats \<Rightarrow> error + stats_info" where
  "info s =
     (let calls = hits s + misses s in
      case (if calls > 0 then py_truediv (100 * hits s) calls else Inr 0) of
        Inl e \<Rightarrow> Inl e
      | Inr hit_ratio \<Rightarrow>
          Inr \<lparr>info_hits = hits s, info_misses = misses s, info_hit_ratio = hit_ratio\<rparr>)"

subsection \<open>Strings\<close>

text \<open>\<open>str.split(sep)\<close> for a one-character separator: n separators give n + 1 fields.\<close>

fun py_split :: "char \<Rightarrow> string \<Rightarrow> string list" where
  "py_split sep [] = [[]]"
| "py_split sep (c # cs) =
     (if c = sep then [] # py_split sep cs
      else (case py_split sep cs of [] \<Rightarrow> [[c]] | f # fs \<Rightarrow> (c # f) # fs))"

text \<open>The ASCII characters for which \<open>str.isspace\<close> holds; \<open>str.strip()\<close> drops them at both ends.\<close>

definition is_space :: "char \<Rightarrow> bool" where
  "is_space c = (c \<in> set [CHR 0x09, CHR 0x0A, CHR 0x0B, CHR 0x0C, CHR 0x0D,
                           CHR 0x1C, CHR 0x1D, CHR 0x1E, CHR 0x1F, CHR 0x20])"

definition strip :: "string \<Rightarrow> string" where
  "strip s = rev (dropWhile is_space (rev (dropWhile is_space s)))"

text \<open>\<open>os.path.basename\<close>: what follows the last slash.\<close>

definition basename :: "string \<Rightarrow> string" where
  "basename p = rev (takeWhile (\<lambda>c. c \<noteq> CHR ''/'') (rev p))"

definition is_digit :: "char \<Rightarrow> bool" where
  "is_digit c = (c \<in> set ''0123456789'')"

definition digits_value :: "string \<Rightarrow> int" where
  "digits_value ds = foldl (\<lambda>n c. 10 * n + (of_char c - 48)) 0 ds"

text \<open>
  \<open>int(s)\<close> on a string: surrounding white space, an optional sign, then groups of
  decimal digits separated by single underscores; anything else raises ValueError.
\<close>

definition py_int :: "string \<Rightarrow> error + int" where
  "py_int s =
     (let t = strip s;
          (sign, body) = (case t of
                            c # r \<Rightarrow> if c = CHR ''-'' then (- 1, r)
                                     else if c = CHR ''+'' then (1, r) else (1, t)
                          | [] \<Rightarrow> (1, t));
          groups = py_split (CHR ''_'') body
      in if list_all (\<lambda>g. g \<noteq> [] \<and> list_all is_digit g) groups
         then Inr (sign * digits_value (concat groups))
         else Inl ValueError)"

subsection \<open>Module constants\<close>

definition PV_FIELDS :: string where
  "PV_FIELDS = ''uuid,name,size,vg_name,vg_uuid,pe_start,pe_count,''
             @ ''pe_alloc_count,mda_count,dev_size,mda_used_count''"

definition PV_FIELDS_LEN :: nat where
  "PV_FIELDS_LEN = length (py_split (CHR '','') PV_FIELDS)"

definition VG_FIELDS :: string where
  "VG_FIELDS = ''uuid,name,attr,size,free,extent_size,extent_count,free_count,''
             @ ''tags,vg_mda_size,vg_mda_free,lv_count,pv_count,pv_name''"

definition VG_FIELDS_LEN :: nat where
  "VG_FIELDS_LEN = length (py_split (CHR '','') VG_FIELDS)"

definition LV_FIELDS :: string where
  "LV_FIELDS = ''uuid,name,vg_name,attr,size,seg_start_pe,devices,tags''"

definition LV_FIELDS_LEN :: nat where
  "LV_FIELDS_LEN = length (py_split (CHR '','') LV_FIELDS)"

definition UNKNOWN :: string where
  "UNKNOWN = ''[unknown]''"

definition VG_OK :: string where
  "VG_OK = ''OK''"

definition VG_PARTIAL :: string where
  "VG_PARTIAL = ''PARTIAL''"

definition SEPARATOR :: char where
  "SEPARATOR = CHR ''|''"

definition LVM_FLAGS :: "string list" where
  "LVM_FLAGS = [''--noheadings'', ''--units'', ''b'', ''--nosuffix'', ''--separator'',
                [SEPARATOR], ''--ignoreskippedcluster'']"

definition PV_PREFIX :: string where
  "PV_PREFIX = ''/dev/mapper''"

definition PVS_CMD :: "string list" where
  "PVS_CMD = [''pvs''] @ LVM_FLAGS @ [''-o'', PV_FIELDS]"

definition VGS_CMD :: "string list" where
  "VGS_CMD = [''vgs''] @ LVM_FLAGS @ [''-o'', VG_FIELDS]"

definition LVS_CMD :: "string list" where
  "LVS_CMD = [''lvs''] @ LVM_FLAGS @ [''-o'', LV_FIELDS]"

definition tags2Tuple :: "string \<Rightarrow> string list" where
  "tags2Tuple sTags = (if sTags \<noteq> [] then py_split (CHR '','') sTags else [])"

subsection \<open>PV, VG and LV records\<close>

record PV =
  PV_uuid :: string
  PV_name :: string
  PV_size :: string
  PV_vg_name :: string
  PV_vg_uuid :: string
  PV_pe_start :: string
  PV_pe_count :: string
  PV_pe_alloc_count :: string
  PV_mda_count :: string
  PV_dev_size :: string
  PV_mda_used_count :: string
  PV_guid :: string

text \<open>
  \<open>PV.fromlvm(*args)\<close>.  The callers check the number of fields first; the named
  tuple's constructor raises TypeError for any other number of arguments.
\<close>

definition PV_fromlvm :: "string list \<Rightarrow> error + PV" where
  "PV_fromlvm args =
     (if length args < 2 then Inl IndexError
      else if length args \<noteq> 11 then Inl TypeError
      else Inr \<lparr>PV_uuid = args ! 0, PV_name = args ! 1, PV_size = args ! 2,
                PV_vg_name = args ! 3, PV_vg_uuid = args ! 4, PV_pe_start = args ! 5,
                PV_pe_count = args ! 6, PV_pe_alloc_count = args ! 7,
                PV_mda_count = args ! 8, PV_dev_size = args ! 9,
                PV_mda_used_count = args ! 10, PV_guid = basename (args ! 1)\<rparr>)"

definition is_metadata_pv :: "PV \<Rightarrow> bool" where
  "is_metadata_pv pv = (PV_mda_used_count pv = ''2'')"

record VG_ATTR =
  vga_permission :: char
  vga_resizeable :: char
  vga_exported :: char
  vga_partial :: char
  vga_allocation :: char
  vga_clustered :: char

record VG =
  VG_uuid :: string
  VG_name :: string
  VG_attr :: VG_ATTR
  VG_size :: string
  VG_free :: string
  VG_extent_size :: string
  VG_extent_count :: string
  VG_free_count :: string
  VG_tags :: "string list"
  VG_vg_mda_size :: string
  VG_vg_mda_free :: string
  VG_lv_count :: string
  VG_pv_count :: string
  VG_pv_name :: "string list"
  VG_writeable :: bool
  VG_partial :: string

text \<open>
  \<open>VG.fromlvm(*fields)\<close>, where the caller has replaced the last field by the list
  of PV names collected for the VG: the model takes that list as \<open>pv_names\<close> and
  ignores \<open>args ! 13\<close>.  \<open>VG_ATTR(*attr_values)\<close> raises TypeError when the attr
  column has fewer than six characters.
\<close>

definition VG_fromlvm :: "string list \<Rightarrow> string list \<Rightarrow> error + VG" where
  "VG_fromlvm args pv_names =
     (if length args \<noteq> 14 then Inl TypeError
      else
        let tags = tags2Tuple (args ! 8);
            sAttr = args ! 2;
            attr_values = take 6 sAttr
        in if length attr_values \<noteq> 6 then Inl TypeError
           else
             let attrs = \<lparr>vga_permission = attr_values ! 0, vga_resizeable = attr_values ! 1,
                          vga_exported = attr_values ! 2, vga_partial = attr_values ! 3,
                          vga_allocation = attr_values ! 4, vga_clustered = attr_values ! 5\<rparr>
             in Inr \<lparr>VG_uuid = args ! 0, VG_name = args ! 1, VG_attr = attrs,
                      VG_size = args ! 3, VG_free = args ! 4, VG_extent_size = args ! 5,
                      VG_extent_count = args ! 6, VG_free_count = args ! 7, VG_tags = tags,
                      VG_vg_mda_size = args ! 9, VG_vg_mda_free = args ! 10,
                      VG_lv_count = args ! 11, VG_pv_count = args ! 12,
                      VG_pv_name = pv_names,
                      VG_writeable = (vga_permission attrs = CHR ''w''),
                      VG_partial = (if vga_partial attrs = CHR ''-'' then VG_OK
                                    else VG_PARTIAL)\<rparr>)"

record LV_ATTR =
  lva_voltype :: char
  lva_permission :: char
  lva_allocations :: char
  lva_fixedminor :: char
  lva_state :: char
  lva_devopen :: char
  lva_target :: char
  lva_zero :: char

record LV =
  LV_uuid :: string
  LV_name :: string
  LV_vg_name :: string
  LV_attr :: LV_ATTR
  LV_size :: string
  LV_seg_start_pe :: string
  LV_devices :: string
  LV_tags :: "string list"
  LV_writeable :: bool
  LV_opened :: bool
  LV_active :: bool

text \<open>\<open>LV.fromlvm(*fields)\<close>; \<open>LV_ATTR(*attr_values)\<close> needs eight characters.\<close>

definition LV_fromlvm :: "string list \<Rightarrow> error + LV" where
  "LV_fromlvm args =
     (if length args \<noteq> 8 then Inl TypeError
      else
        let tags = tags2Tuple (args ! 7);
            sAttr = args ! 3;
            attr_values = take 8 sAttr
        in if length attr_values \<noteq> 8 then Inl TypeError
           else
             let attrs = \<lparr>lva_voltype = attr_values ! 0, lva_permission = attr_values ! 1,
                          lva_allocations = attr_values ! 2, lva_fixedminor = attr_values ! 3,
                          lva_state = attr_values ! 4, lva_devopen = attr_values ! 5,
                          lva_target = attr_values ! 6, lva_zero = attr_values ! 7\<rparr>
             in Inr \<lparr>LV_uuid = args ! 0, LV_name = args ! 1, LV_vg_name = args ! 2,
                      LV_attr = attrs, LV_size = args ! 4, LV_seg_start_pe = args ! 5,
                      LV_devices = args ! 6, LV_tags = tags,
                      LV_writeable = (lva_permission attrs = CHR ''w''),
                      LV_opened = (lva_devopen attrs = CHR ''o''),
                      LV_active = (lva_state attrs = CHR ''a'')\<rparr>)"

subsection \<open>Cache entries\<close>

text \<open>
  A slot of the cache holds a parsed record (\<open>PV\<close>, \<open>VG\<close> or \<open>LV\<close>), a \<open>Stale\<close>
  placeholder or an \<open>Unreadable\<close> placeholder; the placeholders hold a name only.
\<close>

datatype 'a entry = Fresh 'a | Stale string | Unreadable string

fun is_stale :: "'a entry \<Rightarrow> bool" where
  "is_stale (Fresh r) = False"
| "is_stale (Stale n) = True"
| "is_stale (Unreadable n) = True"

text \<open>The attribute \<open>name\<close>, which every kind of entry has.\<close>

fun entry_name :: "('a \<Rightarrow> string) \<Rightarrow> 'a entry \<Rightarrow> string" where
  "entry_name nm (Fresh r) = nm r"
| "entry_name nm (Stale n) = n"
| "entry_name nm (Unreadable n) = n"

text \<open>
  Any other attribute: a \<open>Stale\<close> tuple has none, and \<open>Unreadable.__getattr__\<close>
  raises AttributeError naming the entity.
\<close>

fun entry_attr :: "('a \<Rightarrow> 'b) \<Rightarrow> 'a entry \<Rightarrow> error + 'b" where
  "entry_attr f (Fresh r) = Inr (f r)"
| "entry_attr f (Stale n) = Inl (AttributeError n)"
| "entry_attr f (Unreadable n) = Inl (AttributeError (''Failed reload: '' @ n))"

subsection \<open>Dictionaries\<close>

text \<open>
  A Python dict keeps its keys in insertion order, and the getters return
  \<open>list(d.values())\<close>, so a dict is an association list with distinct keys:
  \<open>AList.update\<close> is \<open>d[k] = v\<close>, \<open>AList.delete\<close> is \<open>d.pop(k, None)\<close>,
  \<open>map_of\<close> is \<open>d.get(k)\<close>.
\<close>

type_synonym ('k, 'v) dict = "('k \<times> 'v) list"

definition dict_has :: "('k, 'v) dict \<Rightarrow> 'k \<Rightarrow> bool" where
  "dict_has d k = (k \<in> set (map fst d))"

definition dict_keys :: "('k, 'v) dict \<Rightarrow> 'k list" where
  "dict_keys d = map fst d"

definition dict_values :: "('k, 'v) dict \<Rightarrow> 'v list" where
  "dict_values d = map snd d"

text \<open>\<open>d.update(d')\<close>\<close>

definition dict_update :: "('k, 'v) dict \<Rightarrow> ('k, 'v) dict \<Rightarrow> ('k, 'v) dict" where
  "dict_update d d' = fold (\<lambda>(k, v) acc. AList.update k v acc) d' d"

text \<open>\<open>del d[k]\<close> raises KeyError for a missing key.\<close>

definition dict_del :: "('k, 'v) dict \<Rightarrow> 'k \<Rightarrow> error + ('k, 'v) dict" where
  "dict_del d k = (if dict_has d k then Inr (AList.delete k d) else Inl KeyError)"

subsection \<open>Device arguments\<close>

text \<open>
  The devices that reach \<open>run_command\<close> are Python objects of several types.  The
  default argument is the empty tuple, \<open>_getVGDevs\<close> and \<open>tuple(pvs)\<close> give tuples,
  \<open>_initpvs\<close> hands on the list it was given, and \<open>_cached_devices\<close> returns the
  object that \<open>multipath.getMPDevNamesIter\<close> returned: a list, a tuple, or another
  iterable such as a generator, which is true and equal to itself only (the number is its
  identity).  \<open>self._devices\<close> is \<open>None\<close> at first.  The comparison \<open>!=\<close> of
  \<open>run_command\<close> is the comparison of these objects, that is, inequality in this type:
  a tuple and a list are never equal.
\<close>

datatype pydevs =
    PyNone
  | PyTuple "string list"
  | PyList "string list"
  | PyIter nat "string list"

text \<open>The truth value of the object, as \<open>not devices\<close> tests it.\<close>

fun py_truth :: "pydevs \<Rightarrow> bool" where
  "py_truth PyNone = False"
| "py_truth (PyTuple xs) = (xs \<noteq> [])"
| "py_truth (PyList xs) = (xs \<noteq> [])"
| "py_truth (PyIter n xs) = True"

text \<open>The items of the object, as \<open>cmd.extend(devices)\<close> reads them.\<close>

fun py_items :: "pydevs \<Rightarrow> string list" where
  "py_items PyNone = []"
| "py_items (PyTuple xs) = xs"
| "py_items (PyList xs) = xs"
| "py_items (PyIter n xs) = xs"

subsection \<open>External collaborators\<close>

text \<open>
  What the module calls and \<open>lvm.py\<close> does not define.  \<open>lvm_run n cmd devices polld\<close>
  is the outcome of the \<open>n\<close>-th call of \<open>lvmcmd.run\<close> (the lines of stdout, or the
  LVMCommandError it raises), and \<open>getMPDevNamesIter n\<close> what the \<open>n\<close>-th call of
  \<open>multipath.getMPDevNamesIter\<close> returns: the tools are not functions of their
  arguments.  \<open>getpvblksize\<close> is \<open>multipath.getDeviceBlockSizes\<close> after
  \<open>os.path.realpath\<close>, \<open>removeMappingsHoldingDevice\<close> the device mapper call (the
  exception it raises, if any), and \<open>fqpvname\<close>, \<open>SUPPORTED_BLOCKSIZE\<close>,
  \<open>VG_EXTENT_SIZE\<close> and \<open>MiB\<close> come from \<open>lvmcmd\<close>, the storage constants and
  \<open>vdsm.common.units\<close>.
\<close>

record env =
  lvm_run :: "nat \<Rightarrow> string list \<Rightarrow> pydevs \<Rightarrow> bool \<Rightarrow> lvmerr + string list"
  getMPDevNamesIter :: "nat \<Rightarrow> pydevs"
  getpvblksize :: "string \<Rightarrow> nat \<times> nat"
  removeMappingsHoldingDevice :: "string \<Rightarrow> error option"
  fqpvname :: "string \<Rightarrow> string"
  SUPPORTED_BLOCKSIZE :: "nat list"
  VG_EXTENT_SIZE :: nat
  MiB :: nat

subsection \<open>The cache\<close>

text \<open>
  The fields of \<open>LVMCache\<close> (\<open>self._pvs\<close> is \<open>self_pvs\<close>, and so on; the locks and the
  semaphore have no sequential content).  \<open>lvm_calls\<close> and \<open>mp_queries\<close> are not fields
  of the class: they record the calls of \<open>lvmcmd.run\<close> made so far, with their
  arguments, and the number of calls of \<open>multipath.getMPDevNamesIter\<close>.
\<close>

record LVMCache =
  self_cache_lvs :: bool
  self_devices :: pydevs
  self_devices_stale :: bool
  self_stalepv :: bool
  self_stalevg :: bool
  self_freshlv :: "string set"
  self_pvs :: "(string, PV entry) dict"
  self_vgs :: "(string, VG entry) dict"
  self_lvs :: "(string \<times> string, LV entry) dict"
  self_stats :: CacheStats
  lvm_calls :: "(string list \<times> pydevs \<times> bool) list"
  mp_queries :: nat

definition LVMCache_init :: "bool \<Rightarrow> LVMCache" where
  "LVMCache_init cache_lvs =
     \<lparr>self_cache_lvs = cache_lvs, self_devices = PyNone, self_devices_stale = True,
      self_stalepv = True, self_stalevg = True, self_freshlv = {},
      self_pvs = [], self_vgs = [], self_lvs = [], self_stats = CacheStats_init,
      lvm_calls = [], mp_queries = 0\<rparr>"

definition stats_miss :: "LVMCache \<Rightarrow> LVMCache" where
  "stats_miss c = c\<lparr>self_stats := miss (self_stats c)\<rparr>"

definition stats_hit :: "LVMCache \<Rightarrow> LVMCache" where
  "stats_hit c = c\<lparr>self_stats := hit (self_stats c)\<rparr>"

text \<open>
  The fields that hold the cached metadata and its flags, apart from the device list
  and the two trace fields.
\<close>

definition cache_fields ::
  "LVMCache \<Rightarrow> bool \<times> bool \<times> bool \<times> string set \<times> (string, PV entry) dict
     \<times> (string, VG entry) dict \<times> (string \<times> string, LV entry) dict \<times> CacheStats" where
  "cache_fields c =
     (self_cache_lvs c, self_stalepv c, self_stalevg c, self_freshlv c,
      self_pvs c, self_vgs c, self_lvs c, self_stats c)"

subsection \<open>Running commands\<close>

definition cached_devices :: "env \<Rightarrow> LVMCache \<Rightarrow> pydevs \<times> LVMCache" where
  "cached_devices E c =
     (if self_devices_stale c then
        (let d = getMPDevNamesIter E (mp_queries c)
         in (d, c\<lparr>self_devices := d, self_devices_stale := False,
                   mp_queries := Suc (mp_queries c)\<rparr>))
      else (self_devices c, c))"

definition invalidate_devices :: "LVMCache \<Rightarrow> LVMCache" where
  "invalidate_devices c = c\<lparr>self_devices_stale := True\<rparr>"

text \<open>One call of \<open>lvmcmd.run(cmd, devices, use_lvmpolld)\<close>, recorded in \<open>lvm_calls\<close>.\<close>

definition lvmcmd_run ::
  "env \<Rightarrow> string list \<Rightarrow> pydevs \<Rightarrow> bool \<Rightarrow> LVMCache \<Rightarrow> (lvmerr + string list) \<times> LVMCache" where
  "lvmcmd_run E cmd devs use_lvmpolld c =
     (lvm_run E (length (lvm_calls c)) cmd devs use_lvmpolld,
      c\<lparr>lvm_calls := lvm_calls c @ [(cmd, devs, use_lvmpolld)]\<rparr>)"

definition run_command ::
  "env \<Rightarrow> string list \<Rightarrow> pydevs \<Rightarrow> bool \<Rightarrow> LVMCache \<Rightarrow> (lvmerr + string list) \<times> LVMCache" where
  "run_command E cmd devs0 use_lvmpolld c0 =
     (let (devs, c1) = (if \<not> py_truth devs0 then cached_devices E c0 else (devs0, c0));
          (r1, c2) = lvmcmd_run E cmd devs use_lvmpolld c1
      in case r1 of
           Inr out \<Rightarrow> (Inr out, c2)
         | Inl error \<Rightarrow>
             (let (upd_devices, c3) = cached_devices E (invalidate_devices c2)
              in if upd_devices \<noteq> devs \<or> \<not> use_lvmpolld then
                   (case lvmcmd_run E cmd upd_devices True c3 of
                      (Inr out, c4) \<Rightarrow> (Inr out, c4)
                    | (Inl error2, c4) \<Rightarrow> (Inl error2, c4))
                 else (Inl error, c3)))"

definition run_command_error ::
  "env \<Rightarrow> string list \<Rightarrow> pydevs \<Rightarrow> bool \<Rightarrow> LVMCache
     \<Rightarrow> (string list \<times> lvmerr option) \<times> LVMCache" where
  "run_command_error E cmd devs use_lvmpolld c =
     (case run_command E cmd devs use_lvmpolld c of
        (Inr out, c') \<Rightarrow> ((out, None), c')
      | (Inl e, c') \<Rightarrow> ((e_out e, Some e), c'))"

subsection \<open>Reloading PVs\<close>

text \<open>
  The loop of \<open>_updatepvs_locked\<close> over the output lines: the PV map and the dict of
  updated PVs after the loop, and the exception that ended it, if any.  The lines before
  a bad one have been stored already when the exception is raised.
\<close>

fun updatepvs_lines ::
  "string list \<Rightarrow> (string, PV entry) dict \<Rightarrow> (string, PV entry) dict
     \<Rightarrow> error option \<times> (string, PV entry) dict \<times> (string, PV entry) dict" where
  "updatepvs_lines [] pvs updated_pvs = (None, pvs, updated_pvs)"
| "updatepvs_lines (line # rest) pvs updated_pvs =
     (let fields = map strip (py_split SEPARATOR line)
      in if length fields \<noteq> PV_FIELDS_LEN then
           (Some (InvalidOutputLine ''pvs'' line), pvs, updated_pvs)
         else
           (case PV_fromlvm fields of
              Inl e \<Rightarrow> (Some e, pvs, updated_pvs)
            | Inr pv \<Rightarrow>
                if PV_name pv = UNKNOWN then updatepvs_lines rest pvs updated_pvs
                else updatepvs_lines rest
                       (AList.update (PV_name pv) (Fresh pv) pvs)
                       (AList.update (PV_name pv) (Fresh pv) updated_pvs)))"

text \<open>\<open>for name in stale: if name in d: del d[name]\<close>\<close>

definition remove_stale :: "'k list \<Rightarrow> ('k, 'v) dict \<Rightarrow> ('k, 'v) dict" where
  "remove_stale names d =
     fold (\<lambda>name acc. if dict_has acc name then AList.delete name acc else acc) names d"

definition updatepvs_locked ::
  "string list \<Rightarrow> string list \<Rightarrow> LVMCache \<Rightarrow> (error + (string, PV entry) dict) \<times> LVMCache" where
  "updatepvs_locked pvs_output pv_names c =
     (case updatepvs_lines pvs_output (self_pvs c) [] of
        (Some e, pvs', updated_pvs) \<Rightarrow> (Inl e, c\<lparr>self_pvs := pvs'\<rparr>)
      | (None, pvs', updated_pvs) \<Rightarrow>
          (let stale_pvs = filter (\<lambda>name. \<not> dict_has updated_pvs name)
                             (if pv_names \<noteq> [] then pv_names else dict_keys pvs')
           in (Inr updated_pvs, c\<lparr>self_pvs := remove_stale stale_pvs pvs'\<rparr>)))"

text \<open>
  One round of the loop shared by \<open>_update_stale_pvs_locked\<close>,
  \<open>_update_stale_vgs_locked\<close> and \<open>_update_stale_lvs_locked\<close>: an entry that is
  present and stale becomes \<open>Unreadable\<close> under the same key.
\<close>

definition make_unreadable ::
  "('a \<Rightarrow> string) \<Rightarrow> 'k \<Rightarrow> ('k, 'a entry) dict \<times> ('k, 'a entry) dict
     \<Rightarrow> ('k, 'a entry) dict \<times> ('k, 'a entry) dict" where
  "make_unreadable nm p = (\<lambda>(d, updated).
     (case map_of d p of
        None \<Rightarrow> (d, updated)
      | Some e \<Rightarrow>
          if is_stale e then
            (let u = Unreadable (entry_name nm e)
             in (AList.update p u d, AList.update p u updated))
          else (d, updated)))"

definition update_stale_pvs_locked ::
  "string list \<Rightarrow> LVMCache \<Rightarrow> (string, PV entry) dict \<times> LVMCache" where
  "update_stale_pvs_locked pv_names c =
     (let (pvs', updated_pvs) =
            fold (make_unreadable PV_name)
              (if pv_names \<noteq> [] then pv_names else dict_keys (self_pvs c)) (self_pvs c, [])
      in (updated_pvs, c\<lparr>self_pvs := pvs'\<rparr>))"

definition reload_single_pv :: "env \<Rightarrow> string \<Rightarrow> LVMCache \<Rightarrow> (error + PV entry) \<times> LVMCache" where
  "reload_single_pv E pv_name c =
     (let cmd = PVS_CMD @ [pv_name];
          ((out, error), c1) = run_command_error E cmd (PyTuple []) True c
      in case error of
           Some e \<Rightarrow>
             (let (updated_pvs, c2) = update_stale_pvs_locked [pv_name] c1
              in case map_of updated_pvs pv_name of
                   None \<Rightarrow> (Inl (InaccessiblePhysDev [pv_name] (Some e)), c2)
                 | Some pv \<Rightarrow> (Inr pv, c2))
         | None \<Rightarrow>
             (case updatepvs_locked out [pv_name] c1 of
                (Inl e, c2) \<Rightarrow> (Inl e, c2)
              | (Inr updated_pvs, c2) \<Rightarrow>
                  (case map_of updated_pvs pv_name of
                     None \<Rightarrow> (Inl (InaccessiblePhysDev [pv_name] None), c2)
                   | Some pv \<Rightarrow> (Inr pv, c2))))"

text \<open>\<open>_reloadpvs(pv_name)\<close>; the empty list stands for \<open>None\<close> as well.\<close>

definition reloadpvs ::
  "env \<Rightarrow> string list \<Rightarrow> LVMCache \<Rightarrow> (error + (string, PV entry) dict) \<times> LVMCache" where
  "reloadpvs E pv_name c =
     (let pv_names = pv_name;
          cmd = PVS_CMD @ pv_names;
          ((out, error), c1) = run_command_error E cmd (PyTuple []) True c
      in case error of
           Some e \<Rightarrow>
             (let (updated_pvs, c2) = update_stale_pvs_locked pv_names c1
              in (Inr updated_pvs, c2))
         | None \<Rightarrow>
             (case updatepvs_locked out pv_names c1 of
                (Inl e, c2) \<Rightarrow> (Inl e, c2)
              | (Inr updated_pvs, c2) \<Rightarrow>
                  (Inr updated_pvs,
                   if pv_name = [] then c2\<lparr>self_stalepv := False\<rparr> else c2)))"

definition invalidatepvs :: "string list \<Rightarrow> LVMCache \<Rightarrow> LVMCache" where
  "invalidatepvs pvNames c =
     c\<lparr>self_pvs := fold (\<lambda>pvName d. AList.update pvName (Stale pvName) d) pvNames (self_pvs c)\<rparr>"

definition invalidateAllPvs :: "LVMCache \<Rightarrow> LVMCache" where
  "invalidateAllPvs c = c\<lparr>self_stalepv := True, self_pvs := []\<rparr>"

definition getPv :: "env \<Rightarrow> string \<Rightarrow> LVMCache \<Rightarrow> (error + PV entry) \<times> LVMCache" where
  "getPv E pv_name c =
     (case map_of (self_pvs c) pv_name of
        None \<Rightarrow> reload_single_pv E pv_name (stats_miss c)
      | Some pv \<Rightarrow>
          if is_stale pv then reload_single_pv E pv_name (stats_miss c)
          else (Inr pv, stats_hit c))"

text \<open>\<open>for name in names: del d[name]\<close>, which stops at the first missing key.\<close>

fun dict_del_all :: "('k, 'v) dict \<Rightarrow> 'k list \<Rightarrow> error + ('k, 'v) dict" where
  "dict_del_all d [] = Inr d"
| "dict_del_all d (name # names) =
     (case dict_del d name of Inl e \<Rightarrow> Inl e | Inr d' \<Rightarrow> dict_del_all d' names)"

definition getAllPvs :: "env \<Rightarrow> LVMCache \<Rightarrow> (error + PV entry list) \<times> LVMCache" where
  "getAllPvs E c =
     (if self_stalepv c then
        (case reloadpvs E [] (stats_miss c) of
           (Inl e, c') \<Rightarrow> (Inl e, c')
         | (Inr pvs, c') \<Rightarrow> (Inr (dict_values pvs), c'))
      else
        (let pvs = self_pvs c;
             stalepvs = map (entry_name PV_name) (filter is_stale (dict_values pvs))
         in if stalepvs \<noteq> [] then
              (let c1 = stats_miss c
               in case dict_del_all pvs stalepvs of
                    Inl e \<Rightarrow> (Inl e, c1)
                  | Inr pvs' \<Rightarrow>
                      (case reloadpvs E stalepvs c1 of
                         (Inl e, c2) \<Rightarrow> (Inl e, c2)
                       | (Inr reloaded, c2) \<Rightarrow>
                           (Inr (dict_values (dict_update pvs' reloaded)), c2)))
            else (Inr (dict_values pvs), stats_hit c)))"

subsection \<open>Reloading VGs\<close>

text \<open>
  \<open>_getVGDevs\<close>: the PVs of the named VGs, or no device at all as soon as one name is
  unknown (KeyError) or not a parsed VG (AttributeError).
\<close>

fun getVGDevs_loop :: "(string, VG entry) dict \<Rightarrow> string list \<Rightarrow> string list \<Rightarrow> string list" where
  "getVGDevs_loop vgs [] devices = devices"
| "getVGDevs_loop vgs (name # rest) devices =
     (case map_of vgs name of
        None \<Rightarrow> []
      | Some e \<Rightarrow>
          (case entry_attr VG_pv_name e of
             Inl err \<Rightarrow> []
           | Inr pvs \<Rightarrow> getVGDevs_loop vgs rest (devices @ pvs)))"

definition getVGDevs :: "LVMCache \<Rightarrow> string list \<Rightarrow> pydevs" where
  "getVGDevs c vgNames = PyTuple (getVGDevs_loop (self_vgs c) vgNames [])"

text \<open>
  The first loop of \<open>_updatevgs_locked\<close>: \<open>vgsFields\<close> maps a VG uuid to the fields of
  its first line and the PV names of all its lines.
\<close>

fun updatevgs_lines ::
  "string list \<Rightarrow> (string, string list \<times> string list) dict
     \<Rightarrow> error + (string, string list \<times> string list) dict" where
  "updatevgs_lines [] vgsFields = Inr vgsFields"
| "updatevgs_lines (line # rest) vgsFields =
     (let fields = map strip (py_split SEPARATOR line)
      in if length fields \<noteq> VG_FIELDS_LEN then Inl (InvalidOutputLine ''vgs'' line)
         else
           (let uuid = fields ! 0;
                pvNameIdx = 13;
                pv_name = fields ! pvNameIdx
            in if pv_name = UNKNOWN then updatevgs_lines rest vgsFields
               else
                 (case map_of vgsFields uuid of
                    None \<Rightarrow>
                      updatevgs_lines rest (AList.update uuid (fields, [pv_name]) vgsFields)
                  | Some (fields0, pv_names) \<Rightarrow>
                      updatevgs_lines rest
                        (AList.update uuid (fields0, pv_names @ [pv_name]) vgsFields))))"

text \<open>
  The second loop: each collected VG is built and stored; \<open>int(vg.pv_count)\<close> raises
  ValueError for a count that is not a number (the comparison itself only logs).
\<close>

fun updatevgs_store ::
  "(string list \<times> string list) list \<Rightarrow> (string, VG entry) dict \<Rightarrow> (string, VG entry) dict
     \<Rightarrow> error option \<times> (string, VG entry) dict \<times> (string, VG entry) dict" where
  "updatevgs_store [] vgs updatedVGs = (None, vgs, updatedVGs)"
| "updatevgs_store ((flds, pv_names) # rest) vgs updatedVGs =
     (case VG_fromlvm flds pv_names of
        Inl e \<Rightarrow> (Some e, vgs, updatedVGs)
      | Inr vg \<Rightarrow>
          (case py_int (VG_pv_count vg) of
             Inl e \<Rightarrow> (Some e, vgs, updatedVGs)
           | Inr n \<Rightarrow>
               updatevgs_store rest
                 (AList.update (VG_name vg) (Fresh vg) vgs)
                 (AList.update (VG_name vg) (Fresh vg) updatedVGs)))"

text \<open>The last loop: a stale VG is deleted and its name leaves \<open>_freshlv\<close>.\<close>

definition remove_stale_vgs ::
  "string list \<Rightarrow> (string, VG entry) dict \<times> string set \<Rightarrow> (string, VG entry) dict \<times> string set" where
  "remove_stale_vgs names =
     fold (\<lambda>name (vgs, fresh).
             if dict_has vgs name then (AList.delete name vgs, fresh - {name})
             else (vgs, fresh)) names"

definition updatevgs_locked ::
  "string list \<Rightarrow> string list \<Rightarrow> LVMCache \<Rightarrow> (error + (string, VG entry) dict) \<times> LVMCache" where
  "updatevgs_locked vgs_output vg_names c =
     (case updatevgs_lines vgs_output [] of
        Inl e \<Rightarrow> (Inl e, c)
      | Inr vgsFields \<Rightarrow>
          (case updatevgs_store (dict_values vgsFields) (self_vgs c) [] of
             (Some e, vgs', updatedVGs) \<Rightarrow> (Inl e, c\<lparr>self_vgs := vgs'\<rparr>)
           | (None, vgs', updatedVGs) \<Rightarrow>
               (let staleVGs = filter (\<lambda>name. \<not> dict_has updatedVGs name)
                                 (if vg_names \<noteq> [] then vg_names else dict_keys vgs');
                    (vgs'', fresh') = remove_stale_vgs staleVGs (vgs', self_freshlv c)
                in (Inr updatedVGs, c\<lparr>self_vgs := vgs'', self_freshlv := fresh'\<rparr>))))"

definition update_stale_vgs_locked :: "string list \<Rightarrow> LVMCache \<Rightarrow> LVMCache" where
  "update_stale_vgs_locked vg_names c =
     (let (vgs', unreadable_vgs) =
            fold (make_unreadable VG_name)
              (if vg_names \<noteq> [] then vg_names else dict_keys (self_vgs c)) (self_vgs c, [])
      in c\<lparr>self_vgs := vgs'\<rparr>)"

definition reload_single_vg :: "env \<Rightarrow> string \<Rightarrow> LVMCache \<Rightarrow> (error + VG entry) \<times> LVMCache" where
  "reload_single_vg E vg_name c =
     (let cmd = VGS_CMD @ [vg_name];
          ((out, error), c1) = run_command_error E cmd (getVGDevs c [vg_name]) True c
      in case error of
           Some e \<Rightarrow>
             (Inl (VolumeGroupDoesNotExist vg_name (Some e)),
              update_stale_vgs_locked [vg_name] c1)
         | None \<Rightarrow>
             (case updatevgs_locked out [vg_name] c1 of
                (Inl e, c2) \<Rightarrow> (Inl e, c2)
              | (Inr updated_vgs, c2) \<Rightarrow>
                  (case map_of updated_vgs vg_name of
                     None \<Rightarrow> (Inl (VolumeGroupDoesNotExist vg_name None), c2)
                   | Some vg \<Rightarrow> (Inr vg, c2))))"


definition invalidatevgs :: "string list \<Rightarrow> LVMCache \<Rightarrow> LVMCache" where
  "invalidatevgs vgNames c =
     c\<lparr>self_vgs := fold (\<lambda>vgName d. AList.update vgName (Stale vgName) d) vgNames (self_vgs c)\<rparr>"

definition invalidateAllVgs :: "LVMCache \<Rightarrow> LVMCache" where
  "invalidateAllVgs c = c\<lparr>self_stalevg := True, self_vgs := [], self_freshlv := {}\<rparr>"

definition getVg :: "env \<Rightarrow> string \<Rightarrow> LVMCache \<Rightarrow> (error + VG entry) \<times> LVMCache" where
  "getVg E vgName c =
     (case map_of (self_vgs c) vgName of
        None \<Rightarrow> reload_single_vg E vgName (stats_miss c)
      | Some vg \<Rightarrow>
          if is_stale vg then reload_single_vg E vgName (stats_miss c)
          else (Inr vg, stats_hit c))"


subsection \<open>Reloading LVs\<close>

text \<open>
  The parsing loop of \<open>_updatelvs_locked\<close>; only the line of an LV's first extent is
  stored.
\<close>

fun updatelvs_lines ::
  "string list \<Rightarrow> (string \<times> string, LV entry) dict \<Rightarrow> (string \<times> string, LV entry) dict
     \<Rightarrow> error option \<times> (string \<times> string, LV entry) dict \<times> (string \<times> string, LV entry) dict" where
  "updatelvs_lines [] lvs updated_lvs = (None, lvs, updated_lvs)"
| "updatelvs_lines (line # rest) lvs updated_lvs =
     (let fields = map strip (py_split SEPARATOR line)
      in if length fields \<noteq> LV_FIELDS_LEN then
           (Some (InvalidOutputLine ''lvs'' line), lvs, updated_lvs)
         else
           (case LV_fromlvm fields of
              Inl e \<Rightarrow> (Some e, lvs, updated_lvs)
            | Inr lv \<Rightarrow>
                if LV_seg_start_pe lv = ''0'' then
                  updatelvs_lines rest
                    (AList.update (LV_vg_name lv, LV_name lv) (Fresh lv) lvs)
                    (AList.update (LV_vg_name lv, LV_name lv) (Fresh lv) updated_lvs)
                else updatelvs_lines rest lvs updated_lvs))"

definition updatelvs_locked ::
  "string list \<Rightarrow> string \<Rightarrow> string option \<Rightarrow> LVMCache
     \<Rightarrow> (error + (string \<times> string, LV entry) dict) \<times> LVMCache" where
  "updatelvs_locked lvs_output vg_name lv_name c =
     (case updatelvs_lines lvs_output (self_lvs c) [] of
        (Some e, lvs', updated_lvs) \<Rightarrow> (Inl e, c\<lparr>self_lvs := lvs'\<rparr>)
      | (None, lvs', updated_lvs) \<Rightarrow>
          (let items = (case lv_name of None \<Rightarrow> dict_keys lvs' | Some n \<Rightarrow> [(vg_name, n)]);
               stale_lvs = map snd (filter (\<lambda>(vgn, lvn). vgn = vg_name
                                             \<and> \<not> dict_has updated_lvs (vgn, lvn)) items)
           in (Inr updated_lvs,
               c\<lparr>self_lvs := remove_stale (map (\<lambda>lvName. (vg_name, lvName)) stale_lvs) lvs'\<rparr>)))"

definition update_stale_lvs_locked ::
  "string \<Rightarrow> LVMCache \<Rightarrow> (string \<times> string, LV entry) dict \<times> LVMCache" where
  "update_stale_lvs_locked vg_name c =
     (let lv_names = map snd (filter (\<lambda>(vgn, lvn). vgn = vg_name) (dict_keys (self_lvs c)));
          (lvs', updated_lvs) =
            fold (make_unreadable LV_name) (map (\<lambda>lvName. (vg_name, lvName)) lv_names)
              (self_lvs c, [])
      in (updated_lvs, c\<lparr>self_lvs := lvs'\<rparr>))"

definition reload_single_lv ::
  "env \<Rightarrow> string \<Rightarrow> string \<Rightarrow> LVMCache \<Rightarrow> (error + LV entry) \<times> LVMCache" where
  "reload_single_lv E vg_name lv_name c =
     (let cmd = LVS_CMD @ [vg_name @ ''/'' @ lv_name];
          ((out, error), c1) = run_command_error E cmd (getVGDevs c [vg_name]) True c
      in case error of
           Some e \<Rightarrow>
             (let (updated, c2) = update_stale_lvs_locked vg_name c1
              in (Inl (LogicalVolumeDoesNotExistError vg_name lv_name (Some e)), c2))
         | None \<Rightarrow>
             (case updatelvs_locked out vg_name (Some lv_name) c1 of
                (Inl e, c2) \<Rightarrow> (Inl e, c2)
              | (Inr updated_lvs, c2) \<Rightarrow>
                  (case map_of updated_lvs (vg_name, lv_name) of
                     None \<Rightarrow> (Inl (LogicalVolumeDoesNotExistError vg_name lv_name None), c2)
                   | Some lv \<Rightarrow> (Inr lv, c2))))"

definition reloadlvs ::
  "env \<Rightarrow> string \<Rightarrow> LVMCache \<Rightarrow> (error + (string \<times> string, LV entry) dict) \<times> LVMCache" where
  "reloadlvs E vg_name c =
     (let cmd = LVS_CMD @ [vg_name];
          ((out, error), c1) = run_command_error E cmd (getVGDevs c [vg_name]) True c
      in case error of
           Some e \<Rightarrow>
             (let (updated_lvs, c2) = update_stale_lvs_locked vg_name c1
              in (Inr updated_lvs, c2))
         | None \<Rightarrow>
             (case updatelvs_locked out vg_name None c1 of
                (Inl e, c2) \<Rightarrow> (Inl e, c2)
              | (Inr updated_lvs, c2) \<Rightarrow>
                  (Inr updated_lvs, c2\<lparr>self_freshlv := insert vg_name (self_freshlv c2)\<rparr>)))"

text \<open>The loop of \<open>_loadAllLvs\<close>, which fills a new dict and touches no field.\<close>

fun loadAllLvs_lines ::
  "string list \<Rightarrow> (string \<times> string, LV entry) dict \<Rightarrow> error + (string \<times> string, LV entry) dict" where
  "loadAllLvs_lines [] new_lvs = Inr new_lvs"
| "loadAllLvs_lines (line # rest) new_lvs =
     (let fields = map strip (py_split SEPARATOR line)
      in if length fields \<noteq> LV_FIELDS_LEN then Inl (InvalidOutputLine ''lvs'' line)
         else
           (case LV_fromlvm fields of
              Inl e \<Rightarrow> Inl e
            | Inr lv \<Rightarrow>
                if LV_seg_start_pe lv = ''0'' then
                  loadAllLvs_lines rest
                    (AList.update (LV_vg_name lv, LV_name lv) (Fresh lv) new_lvs)
                else loadAllLvs_lines rest new_lvs))"

definition loadAllLvs ::
  "env \<Rightarrow> LVMCache \<Rightarrow> (error + (string \<times> string, LV entry) dict) \<times> LVMCache" where
  "loadAllLvs E c =
     (let cmd = LVS_CMD;
          ((out, error), c1) = run_command_error E cmd (PyTuple []) True c
      in case error of
           Some e \<Rightarrow> (Inr (self_lvs c1), c1)
         | None \<Rightarrow>
             (case loadAllLvs_lines out [] of
                Inl e \<Rightarrow> (Inl e, c1)
              | Inr new_lvs \<Rightarrow>
                  (let c2 = c1\<lparr>self_lvs := new_lvs\<rparr>;
                       c3 = c2\<lparr>self_freshlv := set (map fst (dict_keys (self_lvs c2)))\<rparr>
                   in (Inr (self_lvs c3), c3))))"

text \<open>
  \<open>_invalidatelvs(vgName)\<close> without LV names walks \<open>self._lvs.values()\<close> while it
  assigns to the dict.  \<open>n\<close> entries are left to visit; an assignment under a key that
  the dict does not have yet changes its size, and the iterator then raises
  RuntimeError.
\<close>

fun invalidatelvs_all ::
  "string \<Rightarrow> nat \<Rightarrow> (string \<times> string, LV entry) dict
     \<Rightarrow> error option \<times> (string \<times> string, LV entry) dict" where
  "invalidatelvs_all vgName 0 lvs = (None, lvs)"
| "invalidatelvs_all vgName (Suc n) lvs =
     (if length lvs < Suc n then (None, lvs)
      else
        (case snd (lvs ! (length lvs - Suc n)) of
           Fresh lv \<Rightarrow>
             if LV_vg_name lv = vgName then
               (let lvs' = AList.update (vgName, LV_name lv) (Stale (LV_name lv)) lvs
                in if dict_has lvs (vgName, LV_name lv) then invalidatelvs_all vgName n lvs'
                   else (Some RuntimeError, lvs'))
             else invalidatelvs_all vgName n lvs
         | Stale nm \<Rightarrow> invalidatelvs_all vgName n lvs
         | Unreadable nm \<Rightarrow> invalidatelvs_all vgName n lvs))"

definition invalidatelvs :: "string \<Rightarrow> string list \<Rightarrow> LVMCache \<Rightarrow> error option \<times> LVMCache" where
  "invalidatelvs vgName lvNames c =
     (if lvNames \<noteq> [] then
        (None, c\<lparr>self_lvs := fold (\<lambda>lvName d. AList.update (vgName, lvName) (Stale lvName) d)
                                lvNames (self_lvs c)\<rparr>)
      else
        (case invalidatelvs_all vgName (length (self_lvs c)) (self_lvs c) of
           (err, lvs') \<Rightarrow> (err, c\<lparr>self_lvs := lvs'\<rparr>)))"

definition getLv :: "env \<Rightarrow> string \<Rightarrow> string \<Rightarrow> LVMCache \<Rightarrow> (error + LV entry) \<times> LVMCache" where
  "getLv E vg_name lv_name c =
     (case map_of (self_lvs c) (vg_name, lv_name) of
        None \<Rightarrow> reload_single_lv E vg_name lv_name (stats_miss c)
      | Some lv \<Rightarrow>
          if is_stale lv then reload_single_lv E vg_name lv_name (stats_miss c)
          else (Inr lv, stats_hit c))"

definition lvs_needs_reload :: "LVMCache \<Rightarrow> string \<Rightarrow> bool" where
  "lvs_needs_reload c vg_name =
     (if \<not> self_cache_lvs c then True
      else if vg_name \<notin> self_freshlv c then True
      else list_ex (\<lambda>((vgn, lvn), lv). vgn = vg_name \<and> is_stale lv) (self_lvs c))"

text \<open>The filter that ends \<open>getAllLvs\<close>; \<open>and\<close> reads \<open>lv.vg_name\<close> of parsed LVs only.\<close>

definition lvs_of_vg :: "string \<Rightarrow> LV entry list \<Rightarrow> LV entry list" where
  "lvs_of_vg vg_name values =
     filter (\<lambda>lv. \<not> is_stale lv \<and> (case lv of Fresh r \<Rightarrow> LV_vg_name r = vg_name | _ \<Rightarrow> False))
       values"

definition getAllLvs :: "env \<Rightarrow> string \<Rightarrow> LVMCache \<Rightarrow> (error + LV entry list) \<times> LVMCache" where
  "getAllLvs E vg_name c =
     (if lvs_needs_reload c vg_name then
        (case reloadlvs E vg_name (stats_miss c) of
           (Inl e, c') \<Rightarrow> (Inl e, c')
         | (Inr lvs, c') \<Rightarrow> (Inr (lvs_of_vg vg_name (dict_values lvs)), c'))
      else
        (let c' = stats_hit c
         in (Inr (lvs_of_vg vg_name (dict_values (self_lvs c'))), c')))"

subsection \<open>Module-level wrappers\<close>

text \<open>Decimal notation, for \<open>"%sm" % metadataSize\<close> and \<open>"%dm" % n\<close>.\<close>

fun show_nat :: "nat \<Rightarrow> string" where
  "show_nat n =
     (if n < 10 then [''0123456789'' ! n]
      else show_nat (n div 10) @ [''0123456789'' ! (n mod 10)])"

definition show_int :: "int \<Rightarrow> string" where
  "show_int i = (if i < 0 then CHR ''-'' # show_nat (nat (- i)) else show_nat (nat i))"

definition createpv ::
  "env \<Rightarrow> pydevs \<Rightarrow> int \<Rightarrow> string list \<Rightarrow> LVMCache \<Rightarrow> (lvmerr + unit) \<times> LVMCache" where
  "createpv E devs metadataSize options c =
     (let cmd = [''pvcreate''] @ options
                @ (if metadataSize \<noteq> 0 then
                     [''--metadatasize'', show_int metadataSize @ ''m'',
                      ''--metadatacopies'', ''2'', ''--metadataignore'', ''y'']
                   else [])
                @ py_items devs
      in case run_command E cmd devs True c of
           (Inl e, c') \<Rightarrow> (Inl e, c')
         | (Inr out, c') \<Rightarrow> (Inr (), c'))"

text \<open>\<open>pvs[0]\<close> raises IndexError for no PV at all.\<close>

definition enable_metadata_area :: "env \<Rightarrow> string list \<Rightarrow> LVMCache \<Rightarrow> (error + unit) \<times> LVMCache" where
  "enable_metadata_area E pvs c =
     (case pvs of
        [] \<Rightarrow> (Inl IndexError, c)
      | pv0 # rest \<Rightarrow>
          (let cmd = [''pvchange'', ''--metadataignore'', ''n'', pv0]
           in case run_command E cmd (PyTuple pvs) True c of
                (Inl e, c') \<Rightarrow> (Inl (PhysDevInitializationError e), c')
              | (Inr out, c') \<Rightarrow> (Inr (), c')))"

fun removeHolders :: "env \<Rightarrow> string list \<Rightarrow> error option" where
  "removeHolders E [] = None"
| "removeHolders E (device # rest) =
     (case removeMappingsHoldingDevice E (basename device) of
        Some e \<Rightarrow> Some e
      | None \<Rightarrow> removeHolders E rest)"

text \<open>
  \<open>_initpvs\<close>: the PVs are invalidated in a \<open>finally\<close> block, whatever
  \<open>_createpv\<close> did; \<open>_removeHolders\<close> runs before the \<open>try\<close>.  Its callers
  give it a list, which it hands on to \<open>_createpv\<close>.
\<close>

definition initpvs ::
  "env \<Rightarrow> string list \<Rightarrow> int \<Rightarrow> bool \<Rightarrow> LVMCache \<Rightarrow> (error + unit) \<times> LVMCache" where
  "initpvs E devs metadataSize force c =
     (case (if force then removeHolders E devs else None) of
        Some e \<Rightarrow> (Inl e, c)
      | None \<Rightarrow>
          (let options = (if force then [''-y'', ''-ff''] else [])
           in case createpv E (PyList devs) metadataSize options c of
                (Inl e, c') \<Rightarrow> (Inl (PhysDevInitializationError e), invalidatepvs devs c')
              | (Inr u, c') \<Rightarrow> (Inr (), invalidatepvs devs c')))"

fun checkpvsblksize :: "env \<Rightarrow> string list \<Rightarrow> (nat \<times> nat) option \<Rightarrow> error option" where
  "checkpvsblksize E [] vgBlkSize = None"
| "checkpvsblksize E (pv # rest) vgBlkSize =
     (let pvBlkSize = getpvblksize E pv;
          logPvBlkSize = fst pvBlkSize;
          phyPvBlkSize = snd pvBlkSize
      in if logPvBlkSize \<notin> set (SUPPORTED_BLOCKSIZE E) then Some (DeviceBlockSizeError pvBlkSize)
         else if phyPvBlkSize < logPvBlkSize then Some (DeviceBlockSizeError pvBlkSize)
         else
           (let vgBlkSize' = (case vgBlkSize of None \<Rightarrow> pvBlkSize | Some b \<Rightarrow> b)
            in if logPvBlkSize \<noteq> fst vgBlkSize' then
                 Some (VolumeGroupBlockSizeError vgBlkSize' pvBlkSize)
               else checkpvsblksize E rest (Some vgBlkSize')))"

definition getPV :: "env \<Rightarrow> string \<Rightarrow> LVMCache \<Rightarrow> (error + PV entry) \<times> LVMCache" where
  "getPV E pv_name c = getPv E (fqpvname E pv_name) c"

text \<open>
  \<open>movePV\<close>.  The \<open>finally\<close> block runs after \<open>pvmove\<close> whether it failed or not; an
  exception raised inside it replaces the one in flight.
\<close>

definition movePV ::
  "env \<Rightarrow> string \<Rightarrow> string \<Rightarrow> string list \<Rightarrow> LVMCache \<Rightarrow> (error + unit) \<times> LVMCache" where
  "movePV E vgName src_device dst_devices c =
     (let pvName = fqpvname E src_device;
          c1 = invalidatepvs [pvName] c
      in case getPV E pvName c1 of
           (Inl e, c2) \<Rightarrow> (Inl e, c2)
         | (Inr pv, c2) \<Rightarrow>
             (case entry_attr PV_pe_alloc_count pv of
                Inl e \<Rightarrow> (Inl e, c2)
              | Inr pe_alloc_count \<Rightarrow>
                  if pe_alloc_count = ''0'' then (Inr (), c2)
                  else
                    (let cmd = [''pvmove'', pvName]
                               @ (if dst_devices \<noteq> [] then map (fqpvname E) dst_devices else []);
                         (r, c3) = run_command E cmd (getVGDevs c2 [vgName]) False c2;
                         c4 = invalidatepvs [pvName] c3;
                         (ferr, c5) = invalidatelvs vgName [] c4
                     in case ferr of
                          Some e \<Rightarrow> (Inl e, c5)
                        | None \<Rightarrow>
                            (let c6 = invalidatevgs [vgName] c5
                             in case r of
                                  Inl e \<Rightarrow> (Inl (CouldNotMovePVData e), c6)
                                | Inr out \<Rightarrow> (Inr (), c6)))))"

text \<open>
  \<open>createVG\<close>.  The invalidation of the PVs and of the VG is the \<open>else\<close> branch of the
  \<open>try\<close> around \<open>vgcreate\<close>: it runs when the command has not raised.  An empty
  \<open>initialTag\<close> stands for \<open>None\<close> as well.
\<close>

definition createVG ::
  "env \<Rightarrow> string \<Rightarrow> string list \<Rightarrow> string \<Rightarrow> int \<Rightarrow> bool \<Rightarrow> LVMCache \<Rightarrow> (error + unit) \<times> LVMCache" where
  "createVG E vgName devs initialTag metadataSize force c =
     (let pvs = map (fqpvname E) devs
      in case checkpvsblksize E pvs None of
           Some e \<Rightarrow> (Inl e, c)
         | None \<Rightarrow>
             (case initpvs E pvs metadataSize force c of
                (Inl e, c1) \<Rightarrow> (Inl e, c1)
              | (Inr u, c1) \<Rightarrow>
                  (case enable_metadata_area E pvs c1 of
                     (Inl e, c2) \<Rightarrow> (Inl e, c2)
                   | (Inr u, c2) \<Rightarrow>
                       if MiB E = 0 then (Inl ZeroDivisionError, c2)
                       else
                         (let options = [''--physicalextentsize'',
                                         show_nat (VG_EXTENT_SIZE E div MiB E) @ ''m'']
                                        @ (if initialTag \<noteq> [] then [''--addtag'', initialTag]
                                           else []);
                              cmd = [''vgcreate''] @ options @ [vgName] @ pvs
                          in case run_command E cmd (PyTuple pvs) True c2 of
                               (Inl e, c3) \<Rightarrow> (Inl (VolumeGroupCreateError e), c3)
                             | (Inr out, c3) \<Rightarrow>
                                 (Inr (), invalidatevgs [vgName] (invalidatepvs pvs c3))))))"

text \<open>\<open>reduceVG\<close>, with the same \<open>try\<close>/\<open>except\<close>/\<open>else\<close>.\<close>

definition reduceVG :: "env \<Rightarrow> string \<Rightarrow> string \<Rightarrow> LVMCache \<Rightarrow> (error + unit) \<times> LVMCache" where
  "reduceVG E vgName device c =
     (let pvName = fqpvname E device;
          cmd = [''vgreduce'', vgName, pvName]
      in case run_command E cmd (getVGDevs c [vgName]) True c of
           (Inl e, c') \<Rightarrow> (Inl (VolumeGroupReduceError e), c')
         | (Inr out, c') \<Rightarrow> (Inr (), invalidatevgs [vgName] (invalidatepvs [pvName] c')))"

subsection \<open>One line of output\<close>

text \<open>
  What the loops of \<open>_updatepvs_locked\<close>, \<open>_updatelvs_locked\<close> and \<open>_loadAllLvs\<close>
  make of one line: the fields are split at the separator and stripped, counted, and
  handed to \<open>fromlvm\<close>.
\<close>

definition pv_of_line :: "string \<Rightarrow> error + PV" where
  "pv_of_line line =
     (let fields = map strip (py_split SEPARATOR line)
      in if length fields \<noteq> PV_FIELDS_LEN then Inl (InvalidOutputLine ''pvs'' line)
         else PV_fromlvm fields)"

definition lv_of_line :: "string \<Rightarrow> error + LV" where
  "lv_of_line line =
     (let fields = map strip (py_split SEPARATOR line)
      in if length fields \<noteq> LV_FIELDS_LEN then Inl (InvalidOutputLine ''lvs'' line)
         else LV_fromlvm fields)"

subsection \<open>Sample data\<close>

text \<open>
  Concrete collaborators and records, on which the theorems below are instantiated.
  \<open>sample_env results devs\<close> answers the \<open>n\<close>-th command with \<open>results n\<close> and the
  \<open>n\<close>-th device query with the list \<open>devs n\<close>.
\<close>

definition sample_env :: "(nat \<Rightarrow> lvmerr + string list) \<Rightarrow> (nat \<Rightarrow> string list) \<Rightarrow> env" where
  "sample_env results devs =
     \<lparr>lvm_run = (\<lambda>n cmd d p. results n),
      getMPDevNamesIter = (\<lambda>n. PyList (devs n)),
      getpvblksize = (\<lambda>pv. (512, 512)),
      removeMappingsHoldingDevice = (\<lambda>d. None),
      fqpvname = (\<lambda>pv. if take 1 pv = ''/'' then pv else PV_PREFIX @ ''/'' @ pv),
      SUPPORTED_BLOCKSIZE = [512, 4096],
      VG_EXTENT_SIZE = 134217728,
      MiB = 1048576\<rparr>"

definition sample_pv :: "string \<Rightarrow> string \<Rightarrow> string \<Rightarrow> PV" where
  "sample_pv name vg pe_alloc =
     \<lparr>PV_uuid = ''u1'', PV_name = name, PV_size = ''100'', PV_vg_name = vg,
      PV_vg_uuid = ''v1'', PV_pe_start = ''1'', PV_pe_count = ''7'',
      PV_pe_alloc_count = pe_alloc, PV_mda_count = ''2'', PV_dev_size = ''128'',
      PV_mda_used_count = ''2'', PV_guid = basename name\<rparr>"

definition cache_pvs_ab :: LVMCache where
  "cache_pvs_ab =
     (LVMCache_init False)
       \<lparr>self_stalepv := False,
        self_pvs := [(''/dev/mapper/a'', Stale ''/dev/mapper/a''),
                     (''/dev/mapper/b'', Fresh (sample_pv ''/dev/mapper/b'' ''vg1'' ''3''))]\<rparr>"

definition cache_pvs_b :: LVMCache where
  "cache_pvs_b =
     (LVMCache_init False)
       \<lparr>self_stalepv := False,
        self_pvs := [(''/dev/mapper/b'', Fresh (sample_pv ''/dev/mapper/b'' ''vg1'' ''3''))]\<rparr>"

definition cache_devices_a :: LVMCache where
  "cache_devices_a =
     (LVMCache_init False)\<lparr>self_devices := PyList [''/dev/mapper/a''], self_devices_stale := False\<rparr>"

text \<open>A tool that fails with exit code 5 the first time it runs and prints nothing later.\<close>

definition fails_once :: "nat \<Rightarrow> lvmerr + string list" where
  "fails_once n = (if n = 0 then Inl (LVMErr [''pvs''] 5 [] [''no data'']) else Inr [])"

definition lv_line_first :: string where
  "lv_line_first = ''  u1|lv1|vg1|-wi-ao----|1024|0|/dev/mapper/a(0)|t1,t2''"

definition lv_line_second :: string where
  "lv_line_second = ''  u1|lv1|vg1|-wi-ao----|1024|8|/dev/mapper/b(0)|t1,t2''"

definition sample_lv :: LV where
  "sample_lv =
     \<lparr>LV_uuid = ''u1'', LV_name = ''lv1'', LV_vg_name = ''vg1'',
      LV_attr = \<lparr>lva_voltype = CHR ''-'', lva_permission = CHR ''w'',
                 lva_allocations = CHR ''i'', lva_fixedminor = CHR ''-'',
                 lva_state = CHR ''a'', lva_devopen = CHR ''o'', lva_target = CHR ''-'',
                 lva_zero = CHR ''-''\<rparr>,
      LV_size = ''1024'', LV_seg_start_pe = ''0'', LV_devices = ''/dev/mapper/a(0)'',
      LV_tags = [''t1'', ''t2''], LV_writeable = True, LV_opened = True, LV_active = True\<rparr>"

definition cache_lvs_stale :: LVMCache where
  "cache_lvs_stale =
     cache_devices_a\<lparr>self_lvs := [((''vg0'', ''old''), Stale ''old'')],
                     self_freshlv := {''vg0''}\<rparr>"

definition pv_line_b :: string where
  "pv_line_b = ''  u1|/dev/mapper/b|100|vg1|v1|1|7|3|2|128|2''"

definition empty_cache :: LVMCache where
  "empty_cache = cache_devices_a\<lparr>self_stalepv := False, self_stalevg := False\<rparr>"

definition cache_lv_stale :: LVMCache where
  "cache_lv_stale =
     cache_devices_a\<lparr>self_lvs := [((''vg1'', ''lv1''), Stale ''lv1'')],
                     self_freshlv := {''vg1''}\<rparr>"

definition lvs_fails :: "nat \<Rightarrow> lvmerr + string list" where
  "lvs_fails n = Inl (LVMErr [''lvs''] 5 [] [''failed''])"

text \<open>A tool that succeeds twice (\<open>pvcreate\<close>, \<open>pvchange\<close>) and fails from then on.\<close>

definition fails_third :: "nat \<Rightarrow> lvmerr + string list" where
  "fails_third n = (if n < 2 then Inr [] else Inl (LVMErr [''vgcreate''] 5 [] [''failed'']))"

definition always_fails :: "nat \<Rightarrow> lvmerr + string list" where
  "always_fails n = Inl (LVMErr [''lvm''] 5 [] [''failed''])"






definition pv_line_b0 :: string where
  "pv_line_b0 = ''  u1|/dev/mapper/b|100|vg1|v1|1|7|0|2|128|2''"

definition pv_line_c0 :: string where
  "pv_line_c0 = ''  u1|/dev/mapper/c|100|vg1|v1|1|7|0|2|128|2''"

section \<open>Properties\<close>

subsection \<open>What running a command leaves alone\<close>

declare show_nat.simps [simp del]

lemma FIELDS_LEN_values:
  "PV_FIELDS_LEN = 11" "VG_FIELDS_LEN = 14" "LV_FIELDS_LEN = 8"
  by (simp_all add: PV_FIELDS_LEN_def PV_FIELDS_def VG_FIELDS_LEN_def VG_FIELDS_def
        LV_FIELDS_LEN_def LV_FIELDS_def)

lemma cached_devices_cache:
  "cached_devices E c = (d, c') \<Longrightarrow> cache_fields c' = cache_fields c"
  by (auto simp: cached_devices_def cache_fields_def Let_def split: if_splits)

lemma cached_devices_calls:
  "cached_devices E c = (d, c') \<Longrightarrow> lvm_calls c' = lvm_calls c"
  by (auto simp: cached_devices_def Let_def split: if_splits)

lemma lvmcmd_run_cache:
  "lvmcmd_run E cmd d p c = (r, c') \<Longrightarrow> cache_fields c' = cache_fields c"
  by (auto simp: lvmcmd_run_def cache_fields_def)

lemma invalidate_devices_cache [simp]:
  "cache_fields (invalidate_devices c) = cache_fields c"
  by (simp add: invalidate_devices_def cache_fields_def)

lemma run_command_cache:
  "run_command E cmd devs p c = (r, c') \<Longrightarrow> cache_fields c' = cache_fields c"
  unfolding run_command_def
  by (auto simp: Let_def split: prod.splits sum.splits if_splits
      dest!: cached_devices_cache lvmcmd_run_cache)

lemma run_command_error_cache:
  "run_command_error E cmd devs p c = (r, c') \<Longrightarrow> cache_fields c' = cache_fields c"
  unfolding run_command_error_def
  by (auto split: prod.splits sum.splits dest!: run_command_cache)

lemma cache_fieldsD:
  assumes "cache_fields c' = cache_fields c"
  shows "self_cache_lvs c' = self_cache_lvs c" "self_stalepv c' = self_stalepv c"
    "self_stalevg c' = self_stalevg c" "self_freshlv c' = self_freshlv c"
    "self_pvs c' = self_pvs c" "self_vgs c' = self_vgs c" "self_lvs c' = self_lvs c"
    "self_stats c' = self_stats c"
  using assms by (simp_all add: cache_fields_def)


subsection \<open>Marking entries\<close>

lemma map_of_make_unreadable:
  "map_of (fst (make_unreadable nm p (d, u))) x =
     (case map_of d x of
        None \<Rightarrow> None
      | Some e \<Rightarrow> if x = p \<and> is_stale e then Some (Unreadable (entry_name nm e)) else Some e)"
  by (auto simp: make_unreadable_def Let_def update_conv' split: option.splits)

lemma keys_make_unreadable:
  "map fst (fst (make_unreadable nm p (d, u))) = map fst d"
proof (cases "map_of d p")
  case None
  then show ?thesis by (simp add: make_unreadable_def)
next
  case (Some e)
  then have "p \<in> fst ` set d" by (force dest: map_of_SomeD)
  with Some show ?thesis by (simp add: make_unreadable_def Let_def update_keys)
qed

lemma fold_make_unreadable_keys:
  "map fst (fst (fold (make_unreadable nm) ps (d, u))) = map fst d"
proof (induction ps arbitrary: d u)
  case Nil
  show ?case by simp
next
  case (Cons p ps)
  obtain d1 u1 where s: "make_unreadable nm p (d, u) = (d1, u1)"
    by (cases "make_unreadable nm p (d, u)")
  have "map fst d1 = map fst d"
    using keys_make_unreadable [of nm p d u] s by simp
  with Cons.IH [of d1 u1] s show ?case by simp
qed

lemma fold_make_unreadable_map_of:
  "map_of (fst (fold (make_unreadable nm) ps (d, u))) x =
     (case map_of d x of
        None \<Rightarrow> None
      | Some e \<Rightarrow> if x \<in> set ps \<and> is_stale e then Some (Unreadable (entry_name nm e))
                  else Some e)"
proof (induction ps arbitrary: d u)
  case Nil
  show ?case by (simp split: option.splits)
next
  case (Cons p ps)
  obtain d1 u1 where s: "make_unreadable nm p (d, u) = (d1, u1)"
    by (cases "make_unreadable nm p (d, u)")
  have m: "map_of d1 x =
     (case map_of d x of
        None \<Rightarrow> None
      | Some e \<Rightarrow> if x = p \<and> is_stale e then Some (Unreadable (entry_name nm e)) else Some e)"
    using map_of_make_unreadable [of nm p d u x] s by simp
  show ?case
    using Cons.IH [of d1 u1] s m by (auto split: option.splits)
qed

lemma fold_make_unreadable_fixed:
  assumes "\<forall>p \<in> set ps. \<forall>e. map_of d p = Some e \<longrightarrow> is_stale e
              \<longrightarrow> e = Unreadable (entry_name nm e)"
  shows "fst (fold (make_unreadable nm) ps (d, u)) = d"
  using assms
proof (induction ps arbitrary: u)
  case Nil
  show ?case by simp
next
  case (Cons p ps)
  have "fst (make_unreadable nm p (d, u)) = d"
    using Cons.prems by (auto simp: make_unreadable_def Let_def update_triv split: option.splits)
  then obtain u1 where s: "make_unreadable nm p (d, u) = (d, u1)"
    by (cases "make_unreadable nm p (d, u)") auto
  show ?case using Cons.IH [of u1] Cons.prems s by simp
qed

lemma fold_make_unreadable_idem:
  assumes "set qs \<subseteq> set ps"
  shows "fst (fold (make_unreadable nm) qs (fst (fold (make_unreadable nm) ps (d, u)), u'))
           = fst (fold (make_unreadable nm) ps (d, u))"
proof (rule fold_make_unreadable_fixed, intro ballI allI impI)
  fix p e
  assume p: "p \<in> set qs"
    and e: "map_of (fst (fold (make_unreadable nm) ps (d, u))) p = Some e"
    and st: "is_stale e"
  from p assms have "p \<in> set ps" by auto
  with e st show "e = Unreadable (entry_name nm e)"
    by (auto simp: fold_make_unreadable_map_of split: option.splits if_splits)
qed


lemma fold_update_map_of:
  "map_of (fold (\<lambda>k. AList.update k (h k)) ks d) x
     = (if x \<in> set ks then Some (h x) else map_of d x)"
  by (induction ks arbitrary: d) (auto simp: update_conv')

lemma fold_update_fixed:
  "\<forall>k \<in> set ks. map_of d k = Some (h k) \<Longrightarrow> fold (\<lambda>k. AList.update k (h k)) ks d = d"
  by (induction ks) (auto simp: update_triv)

lemma fold_update_idem:
  "fold (\<lambda>k. AList.update k (h k)) ks (fold (\<lambda>k. AList.update k (h k)) ks d)
     = fold (\<lambda>k. AList.update k (h k)) ks d"
  by (rule fold_update_fixed) (simp add: fold_update_map_of)

lemma snd_update_stale_pvs_locked:
  "snd (update_stale_pvs_locked ns c)
     = c\<lparr>self_pvs := fst (fold (make_unreadable PV_name)
                           (if ns \<noteq> [] then ns else dict_keys (self_pvs c)) (self_pvs c, []))\<rparr>"
  by (simp add: update_stale_pvs_locked_def case_prod_beta)

subsection \<open>The statistics\<close>

text \<open>
  C8: \<open>CacheStats.info()\<close> never raises ZeroDivisionError.  It returns the two
  counters as they are, and a hit ratio of 0 when no call was counted and of
  \<open>100 * hits / (hits + misses)\<close> otherwise.
\<close>

theorem info_hit_ratio_total:
  "info s = Inr \<lparr>info_hits = hits s, info_misses = misses s,
       info_hit_ratio = (if hits s + misses s = 0 then 0
                         else of_nat (100 * hits s) / of_nat (hits s + misses s))\<rparr>"
  by (simp add: info_def py_truediv_def Let_def)

theorem info_hit_ratio_total_witness:
  "info \<lparr>hits = 3, misses = 1\<rparr>
     = Inr \<lparr>info_hits = 3, info_misses = 1, info_hit_ratio = 75\<rparr>
   \<and> info (hit (miss (miss CacheStats_init)))
     = Inr \<lparr>info_hits = 1, info_misses = 2, info_hit_ratio = 100 / 3\<rparr>
   \<and> info CacheStats_init = Inr \<lparr>info_hits = 0, info_misses = 0, info_hit_ratio = 0\<rparr>"
  using info_hit_ratio_total [of "\<lparr>hits = 3, misses = 1\<rparr>"]
        info_hit_ratio_total [of "hit (miss (miss CacheStats_init))"]
        info_hit_ratio_total [of CacheStats_init]
  by (simp add: CacheStats_init_def hit_def miss_def)


subsection \<open>Reading all PVs from the cache\<close>

text \<open>
  C5: when \<open>_stalepv\<close> is false and no entry of the PV map is stale, \<open>getAllPvs()\<close>
  runs no command (the list of calls of \<open>lvmcmd.run\<close> is unchanged), counts one hit
  and no miss, changes nothing else, and returns the values of the PV map.
\<close>

theorem getAllPvs_bulk_skip:
  assumes "\<not> self_stalepv c"
    and "\<forall>e \<in> set (dict_values (self_pvs c)). \<not> is_stale e"
  shows "getAllPvs E c
           = (Inr (dict_values (self_pvs c)),
              c\<lparr>self_stats := \<lparr>hits = hits (self_stats c) + 1,
                                misses = misses (self_stats c)\<rparr>\<rparr>)
         \<and> lvm_calls (snd (getAllPvs E c)) = lvm_calls c"
proof -
  have "filter is_stale (dict_values (self_pvs c)) = []"
    using assms(2) by (simp add: filter_empty_conv)
  then have "getAllPvs E c
           = (Inr (dict_values (self_pvs c)),
              c\<lparr>self_stats := \<lparr>hits = hits (self_stats c) + 1,
                                misses = misses (self_stats c)\<rparr>\<rparr>)"
    using assms(1) by (simp add: getAllPvs_def stats_hit_def hit_def)
  then show ?thesis by simp
qed

theorem getAllPvs_bulk_skip_witness:
  "\<not> self_stalepv cache_pvs_b
   \<and> filter is_stale (dict_values (self_pvs cache_pvs_b)) = []
   \<and> fst (getAllPvs (sample_env (\<lambda>n. Inr []) (\<lambda>n. [])) cache_pvs_b)
       = Inr [Fresh (sample_pv ''/dev/mapper/b'' ''vg1'' ''3'')]
   \<and> self_stats (snd (getAllPvs (sample_env (\<lambda>n. Inr []) (\<lambda>n. [])) cache_pvs_b))
       = \<lparr>hits = 1, misses = 0\<rparr>
   \<and> lvm_calls (snd (getAllPvs (sample_env (\<lambda>n. Inr []) (\<lambda>n. [])) cache_pvs_b)) = []"
proof -
  have h1: "\<not> self_stalepv cache_pvs_b"
    by (simp add: cache_pvs_b_def)
  have h2: "\<forall>e \<in> set (dict_values (self_pvs cache_pvs_b)). \<not> is_stale e"
    by (simp add: cache_pvs_b_def dict_values_def)
  show ?thesis
    using h1 h2 getAllPvs_bulk_skip [OF h1 h2, of "sample_env (\<lambda>n. Inr []) (\<lambda>n. [])"]
    by (simp add: cache_pvs_b_def dict_values_def LVMCache_init_def CacheStats_init_def)
qed

subsection \<open>Invalidating and marking unreadable, twice\<close>

text \<open>
  C7: invalidating the same PV names twice leaves the cache as invalidating them once
  does, and each of them is then the \<open>Stale\<close> placeholder of its name.  Marking the
  stale PVs unreadable twice (\<open>_update_stale_pvs_locked\<close>) leaves the cache as marking
  them once does; the marking keeps the keys of the map and changes exactly the targeted
  entries that are present and stale, so that a parsed PV stays as it is.
\<close>

theorem invalidate_unreadable_idempotent:
  "invalidatepvs ns (invalidatepvs ns c) = invalidatepvs ns c
   \<and> (\<forall>n \<in> set ns. map_of (self_pvs (invalidatepvs ns c)) n = Some (Stale n))
   \<and> snd (update_stale_pvs_locked ns (snd (update_stale_pvs_locked ns c)))
       = snd (update_stale_pvs_locked ns c)
   \<and> dict_keys (self_pvs (snd (update_stale_pvs_locked ns c))) = dict_keys (self_pvs c)
   \<and> (\<forall>k. map_of (self_pvs (snd (update_stale_pvs_locked ns c))) k
          = (case map_of (self_pvs c) k of
               None \<Rightarrow> None
             | Some e \<Rightarrow>
                 if (ns = [] \<or> k \<in> set ns) \<and> is_stale e
                 then Some (Unreadable (entry_name PV_name e)) else Some e))"
proof (intro conjI ballI allI)
  show "invalidatepvs ns (invalidatepvs ns c) = invalidatepvs ns c"
    by (simp add: invalidatepvs_def fold_update_idem)
next
  fix n assume "n \<in> set ns"
  then show "map_of (self_pvs (invalidatepvs ns c)) n = Some (Stale n)"
    by (simp add: invalidatepvs_def fold_update_map_of)
next
  let ?ks = "if ns \<noteq> [] then ns else dict_keys (self_pvs c)"
  let ?d = "fst (fold (make_unreadable PV_name) ?ks (self_pvs c, []))"
  have keys: "dict_keys ?d = dict_keys (self_pvs c)"
    unfolding dict_keys_def by (rule fold_make_unreadable_keys)
  have "fst (fold (make_unreadable PV_name) (if ns \<noteq> [] then ns else dict_keys ?d) (?d, []))
          = ?d"
  proof (rule fold_make_unreadable_idem)
    show "set (if ns \<noteq> [] then ns else dict_keys ?d) \<subseteq> set ?ks"
      by (cases "ns = []") (simp_all add: dict_keys_def fold_make_unreadable_keys)
  qed
  then show "snd (update_stale_pvs_locked ns (snd (update_stale_pvs_locked ns c)))
       = snd (update_stale_pvs_locked ns c)"
    by (cases "ns = []") (simp_all add: snd_update_stale_pvs_locked)
next
  show "dict_keys (self_pvs (snd (update_stale_pvs_locked ns c))) = dict_keys (self_pvs c)"
    by (simp add: snd_update_stale_pvs_locked dict_keys_def fold_make_unreadable_keys)
next
  fix k
  have "ns = [] \<Longrightarrow> map_of (self_pvs c) k \<noteq> None \<Longrightarrow> k \<in> set (dict_keys (self_pvs c))"
    by (auto simp: dict_keys_def map_of_eq_None_iff)
  then show "map_of (self_pvs (snd (update_stale_pvs_locked ns c))) k
          = (case map_of (self_pvs c) k of
               None \<Rightarrow> None
             | Some e \<Rightarrow>
                 if (ns = [] \<or> k \<in> set ns) \<and> is_stale e
                 then Some (Unreadable (entry_name PV_name e)) else Some e)"
    by (auto simp: snd_update_stale_pvs_locked fold_make_unreadable_map_of
        split: option.splits)
qed

theorem invalidate_unreadable_idempotent_witness:
  "invalidatepvs [''/dev/mapper/b''] (invalidatepvs [''/dev/mapper/b''] cache_pvs_ab)
     = invalidatepvs [''/dev/mapper/b''] cache_pvs_ab
   \<and> self_pvs (invalidatepvs [''/dev/mapper/b''] cache_pvs_ab)
       = [(''/dev/mapper/a'', Stale ''/dev/mapper/a''),
          (''/dev/mapper/b'', Stale ''/dev/mapper/b'')]
   \<and> snd (update_stale_pvs_locked [] (snd (update_stale_pvs_locked [] cache_pvs_ab)))
       = snd (update_stale_pvs_locked [] cache_pvs_ab)
   \<and> self_pvs (snd (update_stale_pvs_locked [] cache_pvs_ab))
       = [(''/dev/mapper/a'', Unreadable ''/dev/mapper/a''),
          (''/dev/mapper/b'', Fresh (sample_pv ''/dev/mapper/b'' ''vg1'' ''3''))]"
proof -
  have i1: "invalidatepvs [''/dev/mapper/b''] (invalidatepvs [''/dev/mapper/b''] cache_pvs_ab)
              = invalidatepvs [''/dev/mapper/b''] cache_pvs_ab"
    using invalidate_unreadable_idempotent [of "[''/dev/mapper/b'']" cache_pvs_ab] by blast
  have i2: "snd (update_stale_pvs_locked [] (snd (update_stale_pvs_locked [] cache_pvs_ab)))
              = snd (update_stale_pvs_locked [] cache_pvs_ab)"
    using invalidate_unreadable_idempotent [of "[]" cache_pvs_ab] by blast
  have v1: "self_pvs (invalidatepvs [''/dev/mapper/b''] cache_pvs_ab)
              = [(''/dev/mapper/a'', Stale ''/dev/mapper/a''),
                 (''/dev/mapper/b'', Stale ''/dev/mapper/b'')]"
    by (simp add: cache_pvs_ab_def invalidatepvs_def)
  have v2: "self_pvs (snd (update_stale_pvs_locked [] cache_pvs_ab))
              = [(''/dev/mapper/a'', Unreadable ''/dev/mapper/a''),
                 (''/dev/mapper/b'', Fresh (sample_pv ''/dev/mapper/b'' ''vg1'' ''3''))]"
    by (simp add: cache_pvs_ab_def update_stale_pvs_locked_def make_unreadable_def
          dict_keys_def Let_def)
  show ?thesis
    by (rule conjI [OF i1 conjI [OF v1 conjI [OF i2 v2]]])
qed


subsection \<open>Retrying a command with refreshed devices\<close>

text \<open>
  What \<open>run_command\<close> does, in one equation.  \<open>devs\<close> are the devices of the first
  attempt (the cached devices when the caller gave none).  When the first
  \<open>lvmcmd.run\<close> returns, its output is the result.  When it raises LVMCommandError, the
  devices are invalidated and queried again, and the command runs a second and last time
  (on the refreshed devices, with the default \<open>use_lvmpolld\<close>) if and only if the
  refreshed object is not equal to \<open>devs\<close> or \<open>use_lvmpolld\<close> was false.
\<close>

lemma run_command_unfold:
  assumes dev: "(if \<not> py_truth devs0 then cached_devices E c else (devs0, c)) = (devs, c1)"
  shows "run_command E cmd devs0 polld c =
     (case lvm_run E (length (lvm_calls c)) cmd devs polld of
        Inr out \<Rightarrow> (Inr out, c1\<lparr>lvm_calls := lvm_calls c @ [(cmd, devs, polld)]\<rparr>)
      | Inl e \<Rightarrow>
          (let upd = getMPDevNamesIter E (mp_queries c1);
               c3 = c1\<lparr>self_devices := upd, self_devices_stale := False,
                       mp_queries := Suc (mp_queries c1),
                       lvm_calls := lvm_calls c @ [(cmd, devs, polld)]\<rparr>
           in if upd \<noteq> devs \<or> \<not> polld then
                (lvm_run E (Suc (length (lvm_calls c))) cmd upd True,
                 c3\<lparr>lvm_calls := lvm_calls c @ [(cmd, devs, polld), (cmd, upd, True)]\<rparr>)
              else (Inl e, c3)))"
proof -
  have calls: "lvm_calls c1 = lvm_calls c"
    using dev by (auto simp: cached_devices_def Let_def split: if_splits)
  show ?thesis
    using dev calls
    by (auto simp: run_command_def lvmcmd_run_def cached_devices_def invalidate_devices_def
        Let_def split: sum.splits)
qed

lemma run_command_calls:
  assumes "run_command E cmd devs p c = (r, c')"
  shows "\<exists>calls. lvm_calls c' = lvm_calls c @ calls \<and> (\<forall>x \<in> set calls. fst x = cmd)"
proof -
  obtain d c1 where d: "(if \<not> py_truth devs then cached_devices E c else (devs, c)) = (d, c1)"
    by (metis surj_pair)
  let ?u = "getMPDevNamesIter E (mp_queries c1)"
  have "lvm_calls c' = lvm_calls c @ [(cmd, d, p)]
        \<or> lvm_calls c' = lvm_calls c @ [(cmd, d, p), (cmd, ?u, True)]"
    using assms unfolding run_command_unfold [OF d]
    by (cases "lvm_run E (length (lvm_calls c)) cmd d p")
       (auto simp: Let_def split: if_splits)
  then show ?thesis by auto
qed

lemma run_command_error_calls:
  assumes "run_command_error E cmd devs p c = (r, c')"
  shows "\<exists>calls. lvm_calls c' = lvm_calls c @ calls \<and> (\<forall>x \<in> set calls. fst x = cmd)"
  using assms
  by (auto simp: run_command_error_def split: prod.splits sum.splits dest: run_command_calls)

text \<open>
  C4: the code at two inputs.  First, the device cache holds \<open>/dev/mapper/a\<close> while
  the host now has \<open>/dev/mapper/b\<close>, and \<open>pvs /dev/mapper/x\<close> prints nothing and exits
  with 0: \<open>run_command\<close> returns the empty output after one call, and the device cache is
  neither invalidated nor queried again, although the comments and the log message of
  \<open>run_command\<close> speak of a command that failed or returned no data.  Second, a caller
  gives the tuple of the device \<open>/dev/mapper/a\<close>, the command fails once, and the
  refreshed devices are the list of the same device: the command is retried, since a
  tuple and a list are not equal.
\<close>

theorem run_command_empty_stdout_no_retry:
  "run_command (sample_env (\<lambda>n. Inr []) (\<lambda>n. [''/dev/mapper/b'']))
       (PVS_CMD @ [''/dev/mapper/x'']) (PyTuple []) True cache_devices_a
     = (Inr [],
        cache_devices_a
          \<lparr>lvm_calls := [(PVS_CMD @ [''/dev/mapper/x''], PyList [''/dev/mapper/a''], True)]\<rparr>)
   \<and> run_command (sample_env fails_once (\<lambda>n. [''/dev/mapper/a'']))
       (PVS_CMD @ [''/dev/mapper/x'']) (PyTuple [''/dev/mapper/a'']) True cache_devices_a
     = (Inr [],
        cache_devices_a
          \<lparr>mp_queries := 1,
           lvm_calls := [(PVS_CMD @ [''/dev/mapper/x''], PyTuple [''/dev/mapper/a''], True),
                         (PVS_CMD @ [''/dev/mapper/x''], PyList [''/dev/mapper/a''], True)]\<rparr>)"
  by (simp add: run_command_def lvmcmd_run_def cached_devices_def invalidate_devices_def
      sample_env_def fails_once_def LVMCache_init_def cache_devices_a_def Let_def)

theorem run_command_empty_stdout_no_retry_witness:
  "fst (run_command (sample_env (\<lambda>n. Inr []) (\<lambda>n. [''/dev/mapper/b'']))
          (PVS_CMD @ [''/dev/mapper/x'']) (PyTuple []) True cache_devices_a) = Inr []
   \<and> mp_queries (snd (run_command (sample_env (\<lambda>n. Inr []) (\<lambda>n. [''/dev/mapper/b'']))
          (PVS_CMD @ [''/dev/mapper/x'']) (PyTuple []) True cache_devices_a)) = 0
   \<and> length (lvm_calls (snd (run_command (sample_env fails_once (\<lambda>n. [''/dev/mapper/a'']))
          (PVS_CMD @ [''/dev/mapper/x'']) (PyTuple [''/dev/mapper/a'']) True
          cache_devices_a))) = 2"
  using run_command_empty_stdout_no_retry
  by (simp add: cache_devices_a_def LVMCache_init_def)

subsection \<open>Dicts built by successive assignment\<close>

lemma fold_assign_map_of:
  "map_of (fold (\<lambda>r. AList.update (k r) (v r)) rs d)
     = map_of (rev (map (\<lambda>r. (k r, v r)) rs) @ d)"
proof (induction rs arbitrary: d)
  case Nil
  show ?case by simp
next
  case (Cons r rs)
  show ?case
    by (simp add: Cons.IH map_of_append update_conv' map_add_def fun_eq_iff
        split: option.splits)
qed

lemma fold_assign_distinct:
  "distinct (map fst d) \<Longrightarrow> distinct (map fst (fold (\<lambda>r. AList.update (k r) (v r)) rs d))"
  by (induction rs arbitrary: d) (simp_all add: distinct_update)

lemma fold_assign_keys:
  "set (map fst (fold (\<lambda>r. AList.update (k r) (v r)) rs d)) = k ` set rs \<union> set (map fst d)"
  by (induction rs arbitrary: d) (simp_all add: dom_update Un_ac)

subsection \<open>Sample lines\<close>

lemma lv_of_line_first: "lv_of_line lv_line_first = Inr sample_lv"
  by (simp add: lv_of_line_def lv_line_first_def sample_lv_def LV_FIELDS_LEN_def LV_FIELDS_def
      SEPARATOR_def strip_def is_space_def LV_fromlvm_def tags2Tuple_def Let_def)

lemma lv_of_line_second:
  "lv_of_line lv_line_second
     = Inr (sample_lv\<lparr>LV_seg_start_pe := ''8'', LV_devices := ''/dev/mapper/b(0)''\<rparr>)"
  by (simp add: lv_of_line_def lv_line_second_def sample_lv_def LV_FIELDS_LEN_def LV_FIELDS_def
      SEPARATOR_def strip_def is_space_def LV_fromlvm_def tags2Tuple_def Let_def)

subsection \<open>The full LV load\<close>

lemma loadAllLvs_lines_step:
  "loadAllLvs_lines (line # rest) new_lvs =
     (case lv_of_line line of
        Inl e \<Rightarrow> Inl e
      | Inr lv \<Rightarrow>
          if LV_seg_start_pe lv = ''0'' then
            loadAllLvs_lines rest (AList.update (LV_vg_name lv, LV_name lv) (Fresh lv) new_lvs)
          else loadAllLvs_lines rest new_lvs)"
  by (simp add: lv_of_line_def Let_def)

lemma loadAllLvs_lines_rows:
  "map lv_of_line out = map Inr rows \<Longrightarrow>
   loadAllLvs_lines out new_lvs
     = Inr (fold (\<lambda>lv. AList.update (LV_vg_name lv, LV_name lv) (Fresh lv))
              (filter (\<lambda>lv. LV_seg_start_pe lv = ''0'') rows) new_lvs)"
proof (induction out arbitrary: rows new_lvs)
  case Nil
  then show ?case by simp
next
  case (Cons line rest)
  then obtain lv rows' where r: "rows = lv # rows'" "lv_of_line line = Inr lv"
    "map lv_of_line rest = map Inr rows'"
    by (cases rows) auto
  show ?case
    using Cons.IH [OF r(3)] r(1,2)
    by (simp add: loadAllLvs_lines_step del: loadAllLvs_lines.simps)
qed

text \<open>
  C10: \<open>_loadAllLvs\<close> is all or nothing.  \<open>c1\<close> is the cache once the \<open>lvs\<close> command
  has run: its metadata fields are those of \<open>c\<close>.  When the command fails, or when a
  line of its output does not parse, the cache stays \<open>c1\<close>, so the LV map and
  \<open>_freshlv\<close> are unchanged.  When every line parses, the LV map becomes a new dict with
  exactly the rows whose \<open>seg_start_pe\<close> is \<open>"0"\<close>, under the keys (VG name, LV name)
  and with the last row of a key winning, and \<open>_freshlv\<close> becomes the set of the VG
  names of these rows.
\<close>

theorem loadAllLvs_all_or_nothing:
  assumes run: "run_command_error E LVS_CMD (PyTuple []) True c = ((out, err), c1)"
  shows "cache_fields c1 = cache_fields c
    \<and> (err \<noteq> None \<longrightarrow> loadAllLvs E c = (Inr (self_lvs c), c1))
    \<and> (\<forall>e. err = None \<and> loadAllLvs_lines out [] = Inl e \<longrightarrow> loadAllLvs E c = (Inl e, c1))
    \<and> (\<forall>rows. err = None \<and> map lv_of_line out = map Inr rows \<longrightarrow>
          (\<exists>new_lvs.
             loadAllLvs E c
               = (Inr new_lvs,
                  c1\<lparr>self_lvs := new_lvs,
                      self_freshlv :=
                        LV_vg_name ` {lv \<in> set rows. LV_seg_start_pe lv = ''0''}\<rparr>)
             \<and> distinct (dict_keys new_lvs)
             \<and> map_of new_lvs
                 = map_of (rev (map (\<lambda>lv. ((LV_vg_name lv, LV_name lv), Fresh lv))
                                  (filter (\<lambda>lv. LV_seg_start_pe lv = ''0'') rows)))))"
proof (intro conjI allI impI)
  show cf: "cache_fields c1 = cache_fields c"
    using run by (rule run_command_error_cache)
  show "loadAllLvs E c = (Inr (self_lvs c), c1)" if "err \<noteq> None"
    using that run cache_fieldsD(7) [OF cf] by (auto simp: loadAllLvs_def)
  show "loadAllLvs E c = (Inl e, c1)" if "err = None \<and> loadAllLvs_lines out [] = Inl e" for e
    using that run by (simp add: loadAllLvs_def)
  fix rows
  assume a: "err = None \<and> map lv_of_line out = map Inr rows"
  let ?rows0 = "filter (\<lambda>lv. LV_seg_start_pe lv = ''0'') rows"
  let ?new = "fold (\<lambda>lv. AList.update (LV_vg_name lv, LV_name lv) (Fresh lv)) ?rows0 []"
  have l: "loadAllLvs_lines out [] = Inr ?new"
    using a by (simp add: loadAllLvs_lines_rows)
  have f: "set (map fst (dict_keys ?new))
             = LV_vg_name ` {lv \<in> set rows. LV_seg_start_pe lv = ''0''}"
    using fold_assign_keys [of "\<lambda>lv. (LV_vg_name lv, LV_name lv)" Fresh ?rows0 "[]"]
    by (force simp: dict_keys_def)
  have 1: "loadAllLvs E c
             = (Inr ?new,
                c1\<lparr>self_lvs := ?new,
                    self_freshlv := LV_vg_name ` {lv \<in> set rows. LV_seg_start_pe lv = ''0''}\<rparr>)"
    using a run l f by (simp add: loadAllLvs_def Let_def)
  have 2: "distinct (dict_keys ?new)"
    unfolding dict_keys_def by (rule fold_assign_distinct) simp
  have 3: "map_of ?new
             = map_of (rev (map (\<lambda>lv. ((LV_vg_name lv, LV_name lv), Fresh lv)) ?rows0))"
    by (simp add: fold_assign_map_of)
  show "\<exists>new_lvs.
             loadAllLvs E c
               = (Inr new_lvs,
                  c1\<lparr>self_lvs := new_lvs,
                      self_freshlv :=
                        LV_vg_name ` {lv \<in> set rows. LV_seg_start_pe lv = ''0''}\<rparr>)
             \<and> distinct (dict_keys new_lvs)
             \<and> map_of new_lvs
                 = map_of (rev (map (\<lambda>lv. ((LV_vg_name lv, LV_name lv), Fresh lv)) ?rows0))"
    using 1 2 3 by blast
qed

theorem loadAllLvs_all_or_nothing_witness:
  "loadAllLvs (sample_env (\<lambda>n. Inl (LVMErr [''lvs''] 5 [lv_line_first] []))
                 (\<lambda>n. [''/dev/mapper/a''])) cache_lvs_stale
     = (Inr [((''vg0'', ''old''), Stale ''old'')],
        cache_lvs_stale\<lparr>mp_queries := 1,
                        lvm_calls := [(LVS_CMD, PyList [''/dev/mapper/a''], True)]\<rparr>)
   \<and> loadAllLvs (sample_env (\<lambda>n. Inr [lv_line_first, lv_line_second])
                   (\<lambda>n. [''/dev/mapper/a''])) cache_lvs_stale
     = (Inr [((''vg1'', ''lv1''), Fresh sample_lv)],
        cache_lvs_stale\<lparr>self_lvs := [((''vg1'', ''lv1''), Fresh sample_lv)],
                        self_freshlv := {''vg1''},
                        lvm_calls := [(LVS_CMD, PyList [''/dev/mapper/a''], True)]\<rparr>)"
proof -
  let ?E = "sample_env (\<lambda>n. Inl (LVMErr [''lvs''] 5 [lv_line_first] []))
              (\<lambda>n. [''/dev/mapper/a''])"
  have run: "run_command_error ?E LVS_CMD (PyTuple []) True cache_lvs_stale
               = (([lv_line_first], Some (LVMErr [''lvs''] 5 [lv_line_first] [])),
                  cache_lvs_stale\<lparr>mp_queries := 1,
                                  lvm_calls := [(LVS_CMD, PyList [''/dev/mapper/a''], True)]\<rparr>)"
    by (simp add: run_command_error_def run_command_def lvmcmd_run_def cached_devices_def
        invalidate_devices_def sample_env_def cache_lvs_stale_def cache_devices_a_def
        LVMCache_init_def Let_def)
  have first: "loadAllLvs ?E cache_lvs_stale
     = (Inr [((''vg0'', ''old''), Stale ''old'')],
        cache_lvs_stale\<lparr>mp_queries := 1,
                        lvm_calls := [(LVS_CMD, PyList [''/dev/mapper/a''], True)]\<rparr>)"
    using loadAllLvs_all_or_nothing [OF run] by (simp add: cache_lvs_stale_def)
  have second: "loadAllLvs (sample_env (\<lambda>n. Inr [lv_line_first, lv_line_second])
                   (\<lambda>n. [''/dev/mapper/a''])) cache_lvs_stale
     = (Inr [((''vg1'', ''lv1''), Fresh sample_lv)],
        cache_lvs_stale\<lparr>self_lvs := [((''vg1'', ''lv1''), Fresh sample_lv)],
                        self_freshlv := {''vg1''},
                        lvm_calls := [(LVS_CMD, PyList [''/dev/mapper/a''], True)]\<rparr>)"
    by (simp add: loadAllLvs_def run_command_error_def run_command_def lvmcmd_run_def
        cached_devices_def sample_env_def cache_lvs_stale_def cache_devices_a_def
        LVMCache_init_def loadAllLvs_lines_step lv_of_line_first lv_of_line_second
        sample_lv_def dict_keys_def Let_def del: loadAllLvs_lines.simps(2))
  show ?thesis by (rule conjI [OF first second])
qed

subsection \<open>The number of fields of a line\<close>

lemma updatepvs_lines_step:
  "updatepvs_lines (line # rest) pvs updated_pvs =
     (case pv_of_line line of
        Inl e \<Rightarrow> (Some e, pvs, updated_pvs)
      | Inr pv \<Rightarrow>
          if PV_name pv = UNKNOWN then updatepvs_lines rest pvs updated_pvs
          else updatepvs_lines rest
                 (AList.update (PV_name pv) (Fresh pv) pvs)
                 (AList.update (PV_name pv) (Fresh pv) updated_pvs))"
  by (simp add: pv_of_line_def Let_def)

lemma updatelvs_lines_step:
  "updatelvs_lines (line # rest) lvs updated_lvs =
     (case lv_of_line line of
        Inl e \<Rightarrow> (Some e, lvs, updated_lvs)
      | Inr lv \<Rightarrow>
          if LV_seg_start_pe lv = ''0'' then
            updatelvs_lines rest
              (AList.update (LV_vg_name lv, LV_name lv) (Fresh lv) lvs)
              (AList.update (LV_vg_name lv, LV_name lv) (Fresh lv) updated_lvs)
          else updatelvs_lines rest lvs updated_lvs)"
  by (simp add: lv_of_line_def Let_def)

lemma pv_of_line_bad:
  "length (py_split SEPARATOR l) \<noteq> 11 \<Longrightarrow> pv_of_line l = Inl (InvalidOutputLine ''pvs'' l)"
  by (simp add: pv_of_line_def FIELDS_LEN_values)

lemma pv_of_line_good:
  "length (py_split SEPARATOR l) = 11 \<Longrightarrow> \<exists>pv. pv_of_line l = Inr pv"
  by (simp add: pv_of_line_def FIELDS_LEN_values PV_fromlvm_def)

lemma lv_of_line_bad:
  "length (py_split SEPARATOR l) \<noteq> 8 \<Longrightarrow> lv_of_line l = Inl (InvalidOutputLine ''lvs'' l)"
  by (simp add: lv_of_line_def FIELDS_LEN_values)

lemma lv_of_line_good:
  "length (py_split SEPARATOR l) = 8 \<Longrightarrow> lv_of_line l \<noteq> Inl (InvalidOutputLine cmd l')"
  by (auto simp: lv_of_line_def FIELDS_LEN_values LV_fromlvm_def Let_def)

lemma updatepvs_lines_bad:
  assumes "fst (updatepvs_lines pre pvs upd) = None"
    and "length (py_split SEPARATOR bad) \<noteq> 11"
  shows "updatepvs_lines (pre @ bad # post) pvs upd
           = (Some (InvalidOutputLine ''pvs'' bad), snd (updatepvs_lines pre pvs upd))"
  using assms(1)
proof (induction pre arbitrary: pvs upd)
  case Nil
  show ?case
    using assms(2) by (simp add: updatepvs_lines_step pv_of_line_bad del: updatepvs_lines.simps(2))
next
  case (Cons l pre)
  show ?case
  proof (cases "pv_of_line l")
    case (Inl e)
    with Cons.prems show ?thesis
      by (simp add: updatepvs_lines_step del: updatepvs_lines.simps(2))
  next
    case (Inr pv)
    with Cons.prems Cons.IH show ?thesis
      by (auto simp: updatepvs_lines_step simp del: updatepvs_lines.simps(2) split: if_splits)
  qed
qed

lemma updatepvs_lines_good:
  "\<forall>l \<in> set out. length (py_split SEPARATOR l) = 11 \<Longrightarrow>
     fst (updatepvs_lines out pvs upd) = None"
proof (induction out arbitrary: pvs upd)
  case Nil
  show ?case by simp
next
  case (Cons l out)
  then obtain pv where "pv_of_line l = Inr pv"
    using pv_of_line_good [of l] by auto
  with Cons show ?case
    by (simp add: updatepvs_lines_step del: updatepvs_lines.simps(2))
qed

lemma updatelvs_lines_bad:
  assumes "fst (updatelvs_lines pre lvs upd) = None"
    and "length (py_split SEPARATOR bad) \<noteq> 8"
  shows "updatelvs_lines (pre @ bad # post) lvs upd
           = (Some (InvalidOutputLine ''lvs'' bad), snd (updatelvs_lines pre lvs upd))"
  using assms(1)
proof (induction pre arbitrary: lvs upd)
  case Nil
  show ?case
    using assms(2) by (simp add: updatelvs_lines_step lv_of_line_bad del: updatelvs_lines.simps(2))
next
  case (Cons l pre)
  show ?case
  proof (cases "lv_of_line l")
    case (Inl e)
    with Cons.prems show ?thesis
      by (simp add: updatelvs_lines_step del: updatelvs_lines.simps(2))
  next
    case (Inr lv)
    with Cons.prems Cons.IH show ?thesis
      by (auto simp: updatelvs_lines_step simp del: updatelvs_lines.simps(2) split: if_splits)
  qed
qed

lemma updatelvs_lines_good:
  "\<forall>l \<in> set out. length (py_split SEPARATOR l) = 8 \<Longrightarrow>
     fst (updatelvs_lines out lvs upd) \<noteq> Some (InvalidOutputLine cmd l')"
proof (induction out arbitrary: lvs upd)
  case Nil
  show ?case by simp
next
  case (Cons l out)
  show ?case
  proof (cases "lv_of_line l")
    case (Inl e)
    with Cons.prems lv_of_line_good [of l cmd l'] show ?thesis
      by (auto simp: updatelvs_lines_step simp del: updatelvs_lines.simps(2))
  next
    case (Inr lv)
    with Cons show ?thesis
      by (simp add: updatelvs_lines_step del: updatelvs_lines.simps(2))
  qed
qed

lemma loadAllLvs_lines_bad:
  assumes "loadAllLvs_lines pre new_lvs = Inr new_lvs'"
    and "length (py_split SEPARATOR bad) \<noteq> 8"
  shows "loadAllLvs_lines (pre @ bad # post) new_lvs = Inl (InvalidOutputLine ''lvs'' bad)"
  using assms(1)
proof (induction pre arbitrary: new_lvs)
  case Nil
  show ?case
    using assms(2)
    by (simp add: loadAllLvs_lines_step lv_of_line_bad del: loadAllLvs_lines.simps(2))
next
  case (Cons l pre)
  show ?case
  proof (cases "lv_of_line l")
    case (Inl e)
    with Cons.prems show ?thesis
      by (simp add: loadAllLvs_lines_step del: loadAllLvs_lines.simps(2))
  next
    case (Inr lv)
    with Cons.prems Cons.IH show ?thesis
      by (simp add: loadAllLvs_lines_step del: loadAllLvs_lines.simps(2) split: if_splits)
  qed
qed

lemma updatevgs_lines_bad:
  assumes "\<forall>l \<in> set pre. length (py_split SEPARATOR l) = 14"
    and "length (py_split SEPARATOR bad) \<noteq> 14"
  shows "updatevgs_lines (pre @ bad # post) vgsFields = Inl (InvalidOutputLine ''vgs'' bad)"
  using assms(1)
proof (induction pre arbitrary: vgsFields)
  case Nil
  show ?case using assms(2) by (simp add: FIELDS_LEN_values)
next
  case (Cons l pre)
  then show ?case
    by (simp add: FIELDS_LEN_values Let_def split: option.splits)
qed

lemma updatevgs_lines_good:
  "\<forall>l \<in> set out. length (py_split SEPARATOR l) = 14 \<Longrightarrow>
     \<exists>vf. updatevgs_lines out vgsFields = Inr vf"
proof (induction out arbitrary: vgsFields)
  case Nil
  show ?case by simp
next
  case (Cons l out)
  then show ?case
    by (simp add: FIELDS_LEN_values Let_def split: option.splits)
qed


lemma updatevgs_store_no_invalid_line:
  "fst (updatevgs_store fs vgs upd) \<noteq> Some (InvalidOutputLine cmd l)"
proof (induction fs arbitrary: vgs upd)
  case Nil
  show ?case by simp
next
  case (Cons f fs)
  obtain flds pvn where f: "f = (flds, pvn)" by (cases f)
  show ?case
    using Cons.IH
    by (auto simp: f VG_fromlvm_def py_int_def Let_def split: sum.splits if_splits prod.splits)
qed

lemma pv_of_line_b: "pv_of_line pv_line_b = Inr (sample_pv ''/dev/mapper/b'' ''vg1'' ''3'')"
  by (simp add: pv_of_line_def pv_line_b_def sample_pv_def FIELDS_LEN_values
      SEPARATOR_def strip_def is_space_def PV_fromlvm_def basename_def Let_def)

text \<open>
  C6: the field lists have 11, 14 and 8 names.  A line that does not split into that
  many fields at the separator makes the reload raise InvalidOutputLine for that line,
  and the map is then what the lines before it made it (for VGs: what it was), so that
  no entry comes from the line or from what follows it.  The lines before it are
  lines that were processed without an exception.  Conversely, when every line has the
  expected number of fields, InvalidOutputLine is not raised.
\<close>

theorem field_count_checked:
  "PV_FIELDS_LEN = 11 \<and> VG_FIELDS_LEN = 14 \<and> LV_FIELDS_LEN = 8
   \<and> ((\<forall>l \<in> set pre. length (py_split SEPARATOR l) = 11)
        \<and> length (py_split SEPARATOR bad) \<noteq> 11 \<longrightarrow>
      updatepvs_locked (pre @ bad # post) pv_names c
        = (Inl (InvalidOutputLine ''pvs'' bad),
           c\<lparr>self_pvs := fst (snd (updatepvs_lines pre (self_pvs c) []))\<rparr>))
   \<and> ((\<forall>l \<in> set pre. length (py_split SEPARATOR l) = 14)
        \<and> length (py_split SEPARATOR bad) \<noteq> 14 \<longrightarrow>
      updatevgs_locked (pre @ bad # post) vg_names c = (Inl (InvalidOutputLine ''vgs'' bad), c))
   \<and> (fst (updatelvs_lines pre (self_lvs c) []) = None
        \<and> length (py_split SEPARATOR bad) \<noteq> 8 \<longrightarrow>
      updatelvs_locked (pre @ bad # post) vg_name lv_name c
        = (Inl (InvalidOutputLine ''lvs'' bad),
           c\<lparr>self_lvs := fst (snd (updatelvs_lines pre (self_lvs c) []))\<rparr>))
   \<and> ((\<exists>new_lvs. loadAllLvs_lines pre [] = Inr new_lvs)
        \<and> length (py_split SEPARATOR bad) \<noteq> 8 \<longrightarrow>
      loadAllLvs_lines (pre @ bad # post) [] = Inl (InvalidOutputLine ''lvs'' bad))
   \<and> ((\<forall>l \<in> set out. length (py_split SEPARATOR l) = 11) \<longrightarrow>
      (\<exists>updated_pvs. fst (updatepvs_locked out pv_names c) = Inr updated_pvs))
   \<and> ((\<forall>l \<in> set out. length (py_split SEPARATOR l) = 14) \<longrightarrow>
      (\<forall>l'. fst (updatevgs_locked out vg_names c) \<noteq> Inl (InvalidOutputLine ''vgs'' l')))
   \<and> ((\<forall>l \<in> set out. length (py_split SEPARATOR l) = 8) \<longrightarrow>
      (\<forall>l'. fst (updatelvs_locked out vg_name lv_name c) \<noteq> Inl (InvalidOutputLine ''lvs'' l')))"
proof (intro conjI impI allI)
  show "PV_FIELDS_LEN = 11" "VG_FIELDS_LEN = 14" "LV_FIELDS_LEN = 8"
    by (rule FIELDS_LEN_values)+
next
  assume a: "(\<forall>l \<in> set pre. length (py_split SEPARATOR l) = 11)
               \<and> length (py_split SEPARATOR bad) \<noteq> 11"
  then have "fst (updatepvs_lines pre (self_pvs c) []) = None"
    by (simp add: updatepvs_lines_good)
  with a have "updatepvs_lines (pre @ bad # post) (self_pvs c) []
      = (Some (InvalidOutputLine ''pvs'' bad), snd (updatepvs_lines pre (self_pvs c) []))"
    by (simp add: updatepvs_lines_bad)
  then show "updatepvs_locked (pre @ bad # post) pv_names c
        = (Inl (InvalidOutputLine ''pvs'' bad),
           c\<lparr>self_pvs := fst (snd (updatepvs_lines pre (self_pvs c) []))\<rparr>)"
    by (simp add: updatepvs_locked_def split: prod.splits)
next
  assume "(\<forall>l \<in> set pre. length (py_split SEPARATOR l) = 14)
            \<and> length (py_split SEPARATOR bad) \<noteq> 14"
  then have "updatevgs_lines (pre @ bad # post) [] = Inl (InvalidOutputLine ''vgs'' bad)"
    by (simp add: updatevgs_lines_bad)
  then show "updatevgs_locked (pre @ bad # post) vg_names c
               = (Inl (InvalidOutputLine ''vgs'' bad), c)"
    by (simp add: updatevgs_locked_def)
next
  assume "fst (updatelvs_lines pre (self_lvs c) []) = None
            \<and> length (py_split SEPARATOR bad) \<noteq> 8"
  then have "updatelvs_lines (pre @ bad # post) (self_lvs c) []
      = (Some (InvalidOutputLine ''lvs'' bad), snd (updatelvs_lines pre (self_lvs c) []))"
    by (simp add: updatelvs_lines_bad)
  then show "updatelvs_locked (pre @ bad # post) vg_name lv_name c
        = (Inl (InvalidOutputLine ''lvs'' bad),
           c\<lparr>self_lvs := fst (snd (updatelvs_lines pre (self_lvs c) []))\<rparr>)"
    by (simp add: updatelvs_locked_def split: prod.splits)
next
  assume "(\<exists>new_lvs. loadAllLvs_lines pre [] = Inr new_lvs)
            \<and> length (py_split SEPARATOR bad) \<noteq> 8"
  then show "loadAllLvs_lines (pre @ bad # post) [] = Inl (InvalidOutputLine ''lvs'' bad)"
    by (auto simp: loadAllLvs_lines_bad)
next
  assume "\<forall>l \<in> set out. length (py_split SEPARATOR l) = 11"
  then have "fst (updatepvs_lines out (self_pvs c) []) = None"
    by (rule updatepvs_lines_good)
  then show "\<exists>updated_pvs. fst (updatepvs_locked out pv_names c) = Inr updated_pvs"
    by (cases "updatepvs_lines out (self_pvs c) []") (simp add: updatepvs_locked_def Let_def)
next
  fix l'
  assume "\<forall>l \<in> set out. length (py_split SEPARATOR l) = 14"
  then obtain vf where vf: "updatevgs_lines out [] = Inr vf"
    using updatevgs_lines_good by blast
  show "fst (updatevgs_locked out vg_names c) \<noteq> Inl (InvalidOutputLine ''vgs'' l')"
    using updatevgs_store_no_invalid_line [of "dict_values vf" "self_vgs c" "[]" "''vgs''" l']
    by (cases "updatevgs_store (dict_values vf) (self_vgs c) []")
       (auto simp: updatevgs_locked_def vf Let_def split: option.splits prod.splits)
next
  fix l'
  assume "\<forall>l \<in> set out. length (py_split SEPARATOR l) = 8"
  then have "fst (updatelvs_lines out (self_lvs c) []) \<noteq> Some (InvalidOutputLine ''lvs'' l')"
    by (rule updatelvs_lines_good)
  then show "fst (updatelvs_locked out vg_name lv_name c) \<noteq> Inl (InvalidOutputLine ''lvs'' l')"
    by (cases "updatelvs_lines out (self_lvs c) []")
       (auto simp: updatelvs_locked_def Let_def split: option.splits)
qed

theorem field_count_checked_witness:
  "updatepvs_locked [pv_line_b, ''u2|/dev/mapper/c'', pv_line_b] [] empty_cache
     = (Inl (InvalidOutputLine ''pvs'' ''u2|/dev/mapper/c''),
        empty_cache\<lparr>self_pvs :=
          [(''/dev/mapper/b'', Fresh (sample_pv ''/dev/mapper/b'' ''vg1'' ''3''))]\<rparr>)
   \<and> updatevgs_locked [''u2|vg2''] [] empty_cache
     = (Inl (InvalidOutputLine ''vgs'' ''u2|vg2''), empty_cache)
   \<and> updatelvs_locked [lv_line_first, ''u2|lv2|vg1'', lv_line_first] ''vg1'' None empty_cache
     = (Inl (InvalidOutputLine ''lvs'' ''u2|lv2|vg1''),
        empty_cache\<lparr>self_lvs := [((''vg1'', ''lv1''), Fresh sample_lv)]\<rparr>)"
proof -
  have n11: "length (py_split SEPARATOR pv_line_b) = 11"
    by (simp add: pv_line_b_def SEPARATOR_def)
  have b11: "length (py_split SEPARATOR ''u2|/dev/mapper/c'') \<noteq> 11"
    by (simp add: SEPARATOR_def)
  have b14: "length (py_split SEPARATOR ''u2|vg2'') \<noteq> 14"
    by (simp add: SEPARATOR_def)
  have b8: "length (py_split SEPARATOR ''u2|lv2|vg1'') \<noteq> 8"
    by (simp add: SEPARATOR_def)
  have p: "updatepvs_lines [pv_line_b] (self_pvs empty_cache) []
             = (None, [(''/dev/mapper/b'', Fresh (sample_pv ''/dev/mapper/b'' ''vg1'' ''3''))],
                [(''/dev/mapper/b'', Fresh (sample_pv ''/dev/mapper/b'' ''vg1'' ''3''))])"
    by (simp add: updatepvs_lines_step pv_of_line_b empty_cache_def cache_devices_a_def
        LVMCache_init_def sample_pv_def UNKNOWN_def del: updatepvs_lines.simps(2))
  have l: "updatelvs_lines [lv_line_first] (self_lvs empty_cache) []
             = (None, [((''vg1'', ''lv1''), Fresh sample_lv)],
                [((''vg1'', ''lv1''), Fresh sample_lv)])"
    by (simp add: updatelvs_lines_step lv_of_line_first empty_cache_def cache_devices_a_def
        LVMCache_init_def sample_lv_def del: updatelvs_lines.simps(2))
  note t = field_count_checked [of "[pv_line_b]" "''u2|/dev/mapper/c''" "[pv_line_b]" "[]"
      empty_cache]
  note u = field_count_checked [of "[]" "''u2|vg2''" "[]" _ empty_cache "[]"]
  note v = field_count_checked [of "[lv_line_first]" "''u2|lv2|vg1''" "[lv_line_first]" _
      empty_cache _ "''vg1''" None]
  have 1: "updatepvs_locked [pv_line_b, ''u2|/dev/mapper/c'', pv_line_b] [] empty_cache
     = (Inl (InvalidOutputLine ''pvs'' ''u2|/dev/mapper/c''),
        empty_cache\<lparr>self_pvs :=
          [(''/dev/mapper/b'', Fresh (sample_pv ''/dev/mapper/b'' ''vg1'' ''3''))]\<rparr>)"
    using t n11 b11 p by simp
  have 2: "updatevgs_locked [''u2|vg2''] [] empty_cache
     = (Inl (InvalidOutputLine ''vgs'' ''u2|vg2''), empty_cache)"
    using u b14 by simp
  have 3: "updatelvs_locked [lv_line_first, ''u2|lv2|vg1'', lv_line_first] ''vg1'' None
             empty_cache
     = (Inl (InvalidOutputLine ''lvs'' ''u2|lv2|vg1''),
        empty_cache\<lparr>self_lvs := [((''vg1'', ''lv1''), Fresh sample_lv)]\<rparr>)"
    using v b8 l by simp
  show ?thesis by (rule conjI [OF 1 conjI [OF 2 3]])
qed

subsection \<open>What the LV getters return\<close>

lemma set_update_cases:
  "(k', v') \<in> set (AList.update k v d) \<Longrightarrow> (k', v') = (k, v) \<or> (k', v') \<in> set d"
  by (induction d) (auto split: if_splits)

lemma updatelvs_lines_updated_fresh:
  assumes "\<forall>kv \<in> set upd. \<not> is_stale (snd kv)"
  shows "\<forall>kv \<in> set (snd (snd (updatelvs_lines out lvs upd))). \<not> is_stale (snd kv)"
  using assms
proof (induction out arbitrary: lvs upd)
  case Nil
  then show ?case by simp
next
  case (Cons l out)
  show ?case
  proof (cases "lv_of_line l")
    case (Inl e)
    with Cons.prems show ?thesis
      by (simp add: updatelvs_lines_step del: updatelvs_lines.simps(2))
  next
    case (Inr lv)
    have "\<forall>kv \<in> set (AList.update (LV_vg_name lv, LV_name lv) (Fresh lv) upd).
            \<not> is_stale (snd kv)"
      using Cons.prems by (auto dest!: set_update_cases)
    with Cons.IH Cons.prems Inr show ?thesis
      by (simp add: updatelvs_lines_step del: updatelvs_lines.simps(2))
  qed
qed

lemma reload_single_lv_fresh:
  assumes "reload_single_lv E vg_name lv_name c = (Inr r, c')"
  shows "\<not> is_stale r"
proof -
  obtain out err c1 where run:
    "run_command_error E (LVS_CMD @ [vg_name @ ''/'' @ lv_name]) (getVGDevs c [vg_name]) True c
       = ((out, err), c1)"
    by (metis surj_pair)
  obtain e lvs' upd where lines: "updatelvs_lines out (self_lvs c1) [] = (e, lvs', upd)"
    by (metis surj_pair)
  have fresh: "\<forall>kv \<in> set upd. \<not> is_stale (snd kv)"
    using updatelvs_lines_updated_fresh [of "[]" out "self_lvs c1"] lines by simp
  have "map_of upd (vg_name, lv_name) = Some r"
    using assms run lines
    by (auto simp: reload_single_lv_def updatelvs_locked_def Let_def
        split: option.splits prod.splits sum.splits)
  then have "((vg_name, lv_name), r) \<in> set upd" by (rule map_of_SomeD)
  with fresh show ?thesis by force
qed

lemma reload_single_lv_error:
  assumes "run_command_error E (LVS_CMD @ [vg_name @ ''/'' @ lv_name])
             (getVGDevs c [vg_name]) True c = ((out, Some e), c1)"
  shows "reload_single_lv E vg_name lv_name c
           = (Inl (LogicalVolumeDoesNotExistError vg_name lv_name (Some e)),
              snd (update_stale_lvs_locked vg_name c1))"
  using assms by (simp add: reload_single_lv_def Let_def split: prod.splits)

lemma getLv_Inr_fresh:
  "getLv E vg_name lv_name c = (Inr r, c') \<Longrightarrow> \<not> is_stale r"
  by (auto simp: getLv_def split: option.splits if_splits dest: reload_single_lv_fresh)

lemma getAllLvs_Inr_fresh:
  "getAllLvs E vg_name c = (Inr rs, c') \<Longrightarrow> r \<in> set rs \<Longrightarrow> \<not> is_stale r"
  by (auto simp: getAllLvs_def lvs_of_vg_def Let_def split: if_splits prod.splits sum.splits)

text \<open>
  C2: the code at the input where \<open>getLv\<close> would have an \<open>Unreadable\<close> entry to
  return.  The LV \<open>vg1/lv1\<close> is \<open>Stale\<close> in the cache and the \<open>lvs\<close> command fails:
  \<open>getLv\<close> makes the entry \<open>Unreadable\<close> in the cache and raises
  LogicalVolumeDoesNotExistError, where \<open>getPv\<close> returns the \<open>Unreadable\<close> entry and
  where the docstring of \<open>getLv\<close> says that it may return one.  No cache, tool and key
  at all make \<open>getLv\<close> return a \<open>Stale\<close> or an \<open>Unreadable\<close> entry.  \<open>getAllLvs\<close>
  returns none either, as the claim says.
\<close>

theorem getLv_raises_on_failed_reload:
  "getLv (sample_env lvs_fails (\<lambda>n. [''/dev/mapper/a''])) ''vg1'' ''lv1'' cache_lv_stale
     = (Inl (LogicalVolumeDoesNotExistError ''vg1'' ''lv1''
               (Some (LVMErr [''lvs''] 5 [] [''failed'']))),
        cache_lv_stale
          \<lparr>self_lvs := [((''vg1'', ''lv1''), Unreadable ''lv1'')],
           self_stats := \<lparr>hits = 0, misses = 1\<rparr>, mp_queries := 1,
           lvm_calls := [(LVS_CMD @ [''vg1/lv1''], PyList [''/dev/mapper/a''], True)]\<rparr>)
   \<and> \<not> (\<exists>E vg_name lv_name c r c'. getLv E vg_name lv_name c = (Inr r, c') \<and> is_stale r)
   \<and> \<not> (\<exists>E vg_name c rs c' r. getAllLvs E vg_name c = (Inr rs, c') \<and> r \<in> set rs
                                 \<and> is_stale r)"
proof (intro conjI)
  show "getLv (sample_env lvs_fails (\<lambda>n. [''/dev/mapper/a''])) ''vg1'' ''lv1'' cache_lv_stale
     = (Inl (LogicalVolumeDoesNotExistError ''vg1'' ''lv1''
               (Some (LVMErr [''lvs''] 5 [] [''failed'']))),
        cache_lv_stale
          \<lparr>self_lvs := [((''vg1'', ''lv1''), Unreadable ''lv1'')],
           self_stats := \<lparr>hits = 0, misses = 1\<rparr>, mp_queries := 1,
           lvm_calls := [(LVS_CMD @ [''vg1/lv1''], PyList [''/dev/mapper/a''], True)]\<rparr>)"
    by (simp add: getLv_def reload_single_lv_def run_command_error_def run_command_def
        lvmcmd_run_def cached_devices_def invalidate_devices_def getVGDevs_def
        stats_miss_def miss_def update_stale_lvs_locked_def make_unreadable_def dict_keys_def
        lvs_fails_def sample_env_def cache_lv_stale_def cache_devices_a_def
        LVMCache_init_def CacheStats_init_def Let_def)
  show "\<not> (\<exists>E vg_name lv_name c r c'. getLv E vg_name lv_name c = (Inr r, c') \<and> is_stale r)"
    using getLv_Inr_fresh by blast
  show "\<not> (\<exists>E vg_name c rs c' r. getAllLvs E vg_name c = (Inr rs, c') \<and> r \<in> set rs
                                 \<and> is_stale r)"
    using getAllLvs_Inr_fresh by blast
qed

theorem getLv_raises_on_failed_reload_witness:
  "fst (getLv (sample_env lvs_fails (\<lambda>n. [''/dev/mapper/a''])) ''vg1'' ''lv1'' cache_lv_stale)
     = Inl (LogicalVolumeDoesNotExistError ''vg1'' ''lv1''
              (Some (LVMErr [''lvs''] 5 [] [''failed''])))
   \<and> self_lvs (snd (getLv (sample_env lvs_fails (\<lambda>n. [''/dev/mapper/a'']))
                       ''vg1'' ''lv1'' cache_lv_stale))
       = [((''vg1'', ''lv1''), Unreadable ''lv1'')]
   \<and> getLv (sample_env (\<lambda>n. Inr [lv_line_first, lv_line_second]) (\<lambda>n. [''/dev/mapper/a'']))
       ''vg1'' ''lv1'' cache_lv_stale
     = (Inr (Fresh sample_lv),
        cache_lv_stale
          \<lparr>self_lvs := [((''vg1'', ''lv1''), Fresh sample_lv)],
           self_stats := \<lparr>hits = 0, misses = 1\<rparr>,
           lvm_calls := [(LVS_CMD @ [''vg1/lv1''], PyList [''/dev/mapper/a''], True)]\<rparr>)
   \<and> getAllLvs (sample_env lvs_fails (\<lambda>n. [''/dev/mapper/a''])) ''vg1'' cache_lv_stale
     = (Inr [],
        cache_lv_stale
          \<lparr>self_lvs := [((''vg1'', ''lv1''), Unreadable ''lv1'')],
           self_stats := \<lparr>hits = 0, misses = 1\<rparr>, mp_queries := 1,
           lvm_calls := [(LVS_CMD @ [''vg1''], PyList [''/dev/mapper/a''], True)]\<rparr>)"
proof -
  let ?E = "sample_env (\<lambda>n. Inr [lv_line_first, lv_line_second]) (\<lambda>n. [''/dev/mapper/a''])"
  have 1: "fst (getLv (sample_env lvs_fails (\<lambda>n. [''/dev/mapper/a''])) ''vg1'' ''lv1''
                  cache_lv_stale)
     = Inl (LogicalVolumeDoesNotExistError ''vg1'' ''lv1''
              (Some (LVMErr [''lvs''] 5 [] [''failed''])))"
    using getLv_raises_on_failed_reload by simp
  have 2: "self_lvs (snd (getLv (sample_env lvs_fails (\<lambda>n. [''/dev/mapper/a'']))
                       ''vg1'' ''lv1'' cache_lv_stale))
       = [((''vg1'', ''lv1''), Unreadable ''lv1'')]"
    using getLv_raises_on_failed_reload by simp
  have 3: "getLv ?E ''vg1'' ''lv1'' cache_lv_stale
     = (Inr (Fresh sample_lv),
        cache_lv_stale
          \<lparr>self_lvs := [((''vg1'', ''lv1''), Fresh sample_lv)],
           self_stats := \<lparr>hits = 0, misses = 1\<rparr>,
           lvm_calls := [(LVS_CMD @ [''vg1/lv1''], PyList [''/dev/mapper/a''], True)]\<rparr>)"
    by (simp add: getLv_def reload_single_lv_def run_command_error_def run_command_def
        lvmcmd_run_def cached_devices_def getVGDevs_def stats_miss_def miss_def
        updatelvs_locked_def updatelvs_lines_step lv_of_line_first lv_of_line_second
        remove_stale_def dict_has_def sample_env_def cache_lv_stale_def cache_devices_a_def
        LVMCache_init_def CacheStats_init_def sample_lv_def Let_def
        del: updatelvs_lines.simps(2))
  have 4: "getAllLvs (sample_env lvs_fails (\<lambda>n. [''/dev/mapper/a''])) ''vg1'' cache_lv_stale
     = (Inr [],
        cache_lv_stale
          \<lparr>self_lvs := [((''vg1'', ''lv1''), Unreadable ''lv1'')],
           self_stats := \<lparr>hits = 0, misses = 1\<rparr>, mp_queries := 1,
           lvm_calls := [(LVS_CMD @ [''vg1''], PyList [''/dev/mapper/a''], True)]\<rparr>)"
    by (simp add: getAllLvs_def lvs_needs_reload_def reloadlvs_def run_command_error_def
        run_command_def lvmcmd_run_def cached_devices_def invalidate_devices_def getVGDevs_def
        stats_miss_def miss_def update_stale_lvs_locked_def make_unreadable_def dict_keys_def
        dict_values_def lvs_of_vg_def lvs_fails_def sample_env_def cache_lv_stale_def
        cache_devices_a_def LVMCache_init_def CacheStats_init_def Let_def)
  show ?thesis by (rule conjI [OF 1 conjI [OF 2 conjI [OF 3 4]]])
qed

subsection \<open>Invalidation after a mutation\<close>

lemma invalidatepvs_map_of:
  "map_of (self_pvs (invalidatepvs ns c)) n
     = (if n \<in> set ns then Some (Stale n) else map_of (self_pvs c) n)"
  by (simp add: invalidatepvs_def fold_update_map_of)

lemma invalidatevgs_map_of:
  "map_of (self_vgs (invalidatevgs ns c)) n
     = (if n \<in> set ns then Some (Stale n) else map_of (self_vgs c) n)"
  by (simp add: invalidatevgs_def fold_update_map_of)

lemma invalidatepvs_others [simp]:
  "self_vgs (invalidatepvs ns c) = self_vgs c"
  "self_lvs (invalidatepvs ns c) = self_lvs c"
  by (simp_all add: invalidatepvs_def)

lemma invalidatevgs_others [simp]:
  "self_pvs (invalidatevgs ns c) = self_pvs c"
  "self_lvs (invalidatevgs ns c) = self_lvs c"
  by (simp_all add: invalidatevgs_def)

lemma createpv_cache:
  "createpv E devs m opts c = (r, c') \<Longrightarrow> cache_fields c' = cache_fields c"
  by (auto simp: createpv_def Let_def split: prod.splits sum.splits dest: run_command_cache)

lemma initpvs_vgs:
  "initpvs E devs m force c = (r, c') \<Longrightarrow> self_vgs c' = self_vgs c"
  by (auto simp: initpvs_def Let_def split: option.splits prod.splits sum.splits
      dest!: createpv_cache cache_fieldsD(6))

lemma initpvs_stale:
  assumes "initpvs E devs m force c = (r, c')"
    and "force \<longrightarrow> removeHolders E devs = None"
  shows "\<forall>pv \<in> set devs. map_of (self_pvs c') pv = Some (Stale pv)"
  using assms
  by (auto simp: initpvs_def Let_def invalidatepvs_map_of
      split: option.splits prod.splits sum.splits if_splits)

lemma enable_metadata_area_cache:
  "enable_metadata_area E pvs c = (r, c') \<Longrightarrow> cache_fields c' = cache_fields c"
  by (auto simp: enable_metadata_area_def Let_def split: list.splits prod.splits sum.splits
      dest: run_command_cache)

lemma reduceVG_error_cache:
  "reduceVG E vgName device c = (Inl e, c') \<Longrightarrow> cache_fields c' = cache_fields c"
  by (auto simp: reduceVG_def Let_def split: prod.splits sum.splits dest: run_command_cache)

lemma createVG_error_vgs:
  assumes "createVG E vgName devs tag m force c = (Inl e, c')"
  shows "self_vgs c' = self_vgs c"
proof -
  let ?pvs = "map (fqpvname E) devs"
  show ?thesis
  proof (cases "checkpvsblksize E ?pvs None")
    case (Some err)
    with assms show ?thesis by (simp add: createVG_def)
  next
    case None
    obtain r1 c1 where i: "initpvs E ?pvs m force c = (r1, c1)" by (metis surj_pair)
    have v1: "self_vgs c1 = self_vgs c" using i by (rule initpvs_vgs)
    show ?thesis
    proof (cases r1)
      case (Inl err)
      with assms None i v1 show ?thesis by (simp add: createVG_def)
    next
      case (Inr u)
      obtain r2 c2 where m: "enable_metadata_area E ?pvs c1 = (r2, c2)" by (metis surj_pair)
      have v2: "self_vgs c2 = self_vgs c"
        using cache_fieldsD(6) [OF enable_metadata_area_cache [OF m]] v1 by simp
      show ?thesis
      proof (cases r2)
        case (Inl err)
        with assms None i Inr m v2 show ?thesis by (simp add: createVG_def)
      next
        case r2: (Inr u2)
        show ?thesis
          using assms None i Inr m r2 v2
          by (auto simp: createVG_def Let_def split: if_splits prod.splits sum.splits
              dest!: run_command_cache cache_fieldsD(6))
      qed
    qed
  qed
qed

lemma createVG_ok_stale:
  assumes "createVG E vgName devs tag m force c = (Inr u, c')"
  shows "(\<forall>pv \<in> set (map (fqpvname E) devs). map_of (self_pvs c') pv = Some (Stale pv))
         \<and> map_of (self_vgs c') vgName = Some (Stale vgName)"
  using assms
  by (auto simp: createVG_def Let_def invalidatepvs_map_of invalidatevgs_map_of
      split: option.splits if_splits prod.splits sum.splits)


lemma initpvs_Inr_stale:
  assumes "initpvs E devs m force c = (Inr u, c')"
  shows "\<forall>pv \<in> set devs. map_of (self_pvs c') pv = Some (Stale pv)"
  using assms
  by (auto simp: initpvs_def Let_def invalidatepvs_map_of
      split: option.splits prod.splits sum.splits if_splits)

lemma createVG_vgcreate:
  assumes chk: "checkpvsblksize E (map (fqpvname E) devs) None = None"
    and ini: "initpvs E (map (fqpvname E) devs) metadataSize force c = (Inr u1, c1)"
    and ena: "enable_metadata_area E (map (fqpvname E) devs) c1 = (Inr u2, c2)"
    and mib: "MiB E \<noteq> 0"
    and run: "run_command E
                ([''vgcreate'', ''--physicalextentsize'',
                  show_nat (VG_EXTENT_SIZE E div MiB E) @ ''m'']
                 @ (if initialTag \<noteq> [] then [''--addtag'', initialTag] else [])
                 @ [vgName] @ map (fqpvname E) devs)
                (PyTuple (map (fqpvname E) devs)) True c2 = (r, c3)"
  shows "createVG E vgName devs initialTag metadataSize force c
           = (case r of
                Inl e \<Rightarrow> (Inl (VolumeGroupCreateError e), c3)
              | Inr out \<Rightarrow>
                  (Inr (), invalidatevgs [vgName] (invalidatepvs (map (fqpvname E) devs) c3)))"
    and "cache_fields c3 = cache_fields c2"
    and "self_vgs c3 = self_vgs c"
    and "\<forall>pv \<in> set (map (fqpvname E) devs). map_of (self_pvs c3) pv = Some (Stale pv)"
proof -
  show "createVG E vgName devs initialTag metadataSize force c
           = (case r of
                Inl e \<Rightarrow> (Inl (VolumeGroupCreateError e), c3)
              | Inr out \<Rightarrow>
                  (Inr (), invalidatevgs [vgName] (invalidatepvs (map (fqpvname E) devs) c3)))"
    using chk ini ena mib run
    by (cases r) (simp_all add: createVG_def Let_def)
  show cf3: "cache_fields c3 = cache_fields c2"
    using run by (rule run_command_cache)
  have cf2: "cache_fields c2 = cache_fields c1"
    using ena by (rule enable_metadata_area_cache)
  show "self_vgs c3 = self_vgs c"
    using cache_fieldsD(6) [OF cf3] cache_fieldsD(6) [OF cf2] initpvs_vgs [OF ini] by simp
  have "self_pvs c3 = self_pvs c1"
    using cache_fieldsD(5) [OF cf3] cache_fieldsD(5) [OF cf2] by simp
  with initpvs_Inr_stale [OF ini]
  show "\<forall>pv \<in> set (map (fqpvname E) devs). map_of (self_pvs c3) pv = Some (Stale pv)"
    by simp
qed

text \<open>
  C3, as the code has it.  \<open>reduceVG\<close> and \<open>createVG\<close> invalidate the PVs and the VG
  in the \<open>else\<close> branch of the \<open>try\<close> around their command, that is, when it has
  not raised: then each PV and the VG are \<open>Stale\<close>.  When \<open>vgreduce\<close> fails,
  \<open>reduceVG\<close> raises VolumeGroupReduceError and the metadata fields of the cache are
  what they were.  When \<open>vgcreate\<close> fails (after the block size check, \<open>_initpvs\<close> and
  \<open>_enable_metadata_area\<close> have passed), \<open>createVG\<close> raises VolumeGroupCreateError
  with the cache that the command left, whose metadata fields are those before the
  command: the VG map is that of the start, and the PVs are \<open>Stale\<close> from \<open>_initpvs\<close>
  only.  Whenever \<open>createVG\<close> raises, the VG map is what it was.  The invalidation that
  does run on failure is that of \<open>_initpvs\<close>, in a \<open>finally\<close> block: once
  \<open>_removeHolders\<close> has passed, the PVs are \<open>Stale\<close> whatever \<open>pvcreate\<close> did, and a
  failure of \<open>_initpvs\<close> is the failure of \<open>createVG\<close>.
\<close>

theorem invalidation_on_success_only:
  "(\<forall>e c'. reduceVG E vgName device c = (Inl e, c') \<longrightarrow> cache_fields c' = cache_fields c)
   \<and> (\<forall>e c1. run_command E [''vgreduce'', vgName, fqpvname E device]
                 (getVGDevs c [vgName]) True c = (Inl e, c1)
        \<longrightarrow> reduceVG E vgName device c = (Inl (VolumeGroupReduceError e), c1))
   \<and> (\<forall>out c1. run_command E [''vgreduce'', vgName, fqpvname E device]
                 (getVGDevs c [vgName]) True c = (Inr out, c1)
        \<longrightarrow> reduceVG E vgName device c
              = (Inr (), invalidatevgs [vgName] (invalidatepvs [fqpvname E device] c1)))
   \<and> (\<forall>u c'. reduceVG E vgName device c = (Inr u, c')
        \<longrightarrow> map_of (self_pvs c') (fqpvname E device) = Some (Stale (fqpvname E device))
            \<and> map_of (self_vgs c') vgName = Some (Stale vgName))
   \<and> (\<forall>e c'. createVG E vgName devs initialTag metadataSize force c = (Inl e, c')
        \<longrightarrow> self_vgs c' = self_vgs c)
   \<and> (\<forall>u c'. createVG E vgName devs initialTag metadataSize force c = (Inr u, c')
        \<longrightarrow> (\<forall>pv \<in> set (map (fqpvname E) devs). map_of (self_pvs c') pv = Some (Stale pv))
            \<and> map_of (self_vgs c') vgName = Some (Stale vgName))
   \<and> (\<forall>u1 c1 u2 c2 r c3.
         checkpvsblksize E (map (fqpvname E) devs) None = None
         \<and> initpvs E (map (fqpvname E) devs) metadataSize force c = (Inr u1, c1)
         \<and> enable_metadata_area E (map (fqpvname E) devs) c1 = (Inr u2, c2)
         \<and> MiB E \<noteq> 0
         \<and> run_command E
              ([''vgcreate'', ''--physicalextentsize'',
                show_nat (VG_EXTENT_SIZE E div MiB E) @ ''m'']
               @ (if initialTag \<noteq> [] then [''--addtag'', initialTag] else [])
               @ [vgName] @ map (fqpvname E) devs)
              (PyTuple (map (fqpvname E) devs)) True c2 = (r, c3)
        \<longrightarrow> createVG E vgName devs initialTag metadataSize force c
              = (case r of
                   Inl e \<Rightarrow> (Inl (VolumeGroupCreateError e), c3)
                 | Inr out \<Rightarrow>
                     (Inr (), invalidatevgs [vgName]
                                (invalidatepvs (map (fqpvname E) devs) c3)))
            \<and> cache_fields c3 = cache_fields c2
            \<and> self_vgs c3 = self_vgs c
            \<and> (\<forall>pv \<in> set (map (fqpvname E) devs). map_of (self_pvs c3) pv = Some (Stale pv)))
   \<and> (\<forall>e c1. checkpvsblksize E (map (fqpvname E) devs) None = None
         \<and> initpvs E (map (fqpvname E) devs) metadataSize force c = (Inl e, c1)
        \<longrightarrow> createVG E vgName devs initialTag metadataSize force c = (Inl e, c1))
   \<and> (\<forall>r c'. (force \<longrightarrow> removeHolders E pvs = None)
         \<and> initpvs E pvs metadataSize force c = (r, c')
        \<longrightarrow> (\<forall>pv \<in> set pvs. map_of (self_pvs c') pv = Some (Stale pv)))
   \<and> (\<forall>e. force \<and> removeHolders E pvs = Some e
        \<longrightarrow> initpvs E pvs metadataSize force c = (Inl e, c))"
proof (intro conjI allI impI)
  fix e c'
  assume "reduceVG E vgName device c = (Inl e, c')"
  then show "cache_fields c' = cache_fields c" by (rule reduceVG_error_cache)
next
  fix e c1
  assume "run_command E [''vgreduce'', vgName, fqpvname E device]
            (getVGDevs c [vgName]) True c = (Inl e, c1)"
  then show "reduceVG E vgName device c = (Inl (VolumeGroupReduceError e), c1)"
    by (simp add: reduceVG_def)
next
  fix out c1
  assume "run_command E [''vgreduce'', vgName, fqpvname E device]
            (getVGDevs c [vgName]) True c = (Inr out, c1)"
  then show "reduceVG E vgName device c
              = (Inr (), invalidatevgs [vgName] (invalidatepvs [fqpvname E device] c1))"
    by (simp add: reduceVG_def)
next
  fix u c'
  assume a: "reduceVG E vgName device c = (Inr u, c')"
  then show "map_of (self_pvs c') (fqpvname E device) = Some (Stale (fqpvname E device))"
    by (auto simp: reduceVG_def Let_def invalidatepvs_map_of split: prod.splits sum.splits)
  from a show "map_of (self_vgs c') vgName = Some (Stale vgName)"
    by (auto simp: reduceVG_def Let_def invalidatevgs_map_of split: prod.splits sum.splits)
next
  fix e c'
  assume "createVG E vgName devs initialTag metadataSize force c = (Inl e, c')"
  then show "self_vgs c' = self_vgs c" by (rule createVG_error_vgs)
next
  fix u c'
  assume a: "createVG E vgName devs initialTag metadataSize force c = (Inr u, c')"
  show "\<forall>pv \<in> set (map (fqpvname E) devs). map_of (self_pvs c') pv = Some (Stale pv)"
    using createVG_ok_stale [OF a] by blast
  show "map_of (self_vgs c') vgName = Some (Stale vgName)"
    using createVG_ok_stale [OF a] by blast
next
  fix u1 c1 u2 c2 r c3
  assume a: "checkpvsblksize E (map (fqpvname E) devs) None = None
         \<and> initpvs E (map (fqpvname E) devs) metadataSize force c = (Inr u1, c1)
         \<and> enable_metadata_area E (map (fqpvname E) devs) c1 = (Inr u2, c2)
         \<and> MiB E \<noteq> 0
         \<and> run_command E
              ([''vgcreate'', ''--physicalextentsize'',
                show_nat (VG_EXTENT_SIZE E div MiB E) @ ''m'']
               @ (if initialTag \<noteq> [] then [''--addtag'', initialTag] else [])
               @ [vgName] @ map (fqpvname E) devs)
              (PyTuple (map (fqpvname E) devs)) True c2 = (r, c3)"
  note v = createVG_vgcreate [of E devs metadataSize force c u1 c1 u2 c2 initialTag vgName r c3]
  from a show "createVG E vgName devs initialTag metadataSize force c
              = (case r of
                   Inl e \<Rightarrow> (Inl (VolumeGroupCreateError e), c3)
                 | Inr out \<Rightarrow>
                     (Inr (), invalidatevgs [vgName]
                                (invalidatepvs (map (fqpvname E) devs) c3)))"
    by (intro v(1)) simp_all
  from a show "cache_fields c3 = cache_fields c2" by (intro v(2)) simp_all
  from a show "self_vgs c3 = self_vgs c" by (intro v(3)) simp_all
  from a show "\<forall>pv \<in> set (map (fqpvname E) devs). map_of (self_pvs c3) pv = Some (Stale pv)"
    by (intro v(4)) simp_all
next
  fix e c1
  assume "checkpvsblksize E (map (fqpvname E) devs) None = None
         \<and> initpvs E (map (fqpvname E) devs) metadataSize force c = (Inl e, c1)"
  then show "createVG E vgName devs initialTag metadataSize force c = (Inl e, c1)"
    by (simp add: createVG_def)
next
  fix r c'
  assume "(force \<longrightarrow> removeHolders E pvs = None)
         \<and> initpvs E pvs metadataSize force c = (r, c')"
  then show "\<forall>pv \<in> set pvs. map_of (self_pvs c') pv = Some (Stale pv)"
    using initpvs_stale [of E pvs metadataSize force c r c'] by blast
next
  fix e
  assume "force \<and> removeHolders E pvs = Some e"
  then show "initpvs E pvs metadataSize force c = (Inl e, c)"
    by (simp add: initpvs_def)
qed

theorem invalidation_on_success_only_witness:
  "reduceVG (sample_env (\<lambda>n. Inr []) (\<lambda>n. [''/dev/mapper/a''])) ''vg1'' ''b'' cache_pvs_b
     = (Inr (),
        cache_pvs_b
          \<lparr>self_devices := PyList [''/dev/mapper/a''], self_devices_stale := False,
           self_pvs := [(''/dev/mapper/b'', Stale ''/dev/mapper/b'')],
           self_vgs := [(''vg1'', Stale ''vg1'')],
           lvm_calls := [([''vgreduce'', ''vg1'', ''/dev/mapper/b''], PyList [''/dev/mapper/a''], True)],
           mp_queries := 1\<rparr>)
   \<and> map_of (self_vgs (snd (reduceVG (sample_env (\<lambda>n. Inr []) (\<lambda>n. [''/dev/mapper/a'']))
                                ''vg1'' ''b'' cache_pvs_b))) ''vg1''
       = Some (Stale ''vg1'')"
proof -
  let ?E = "sample_env (\<lambda>n. Inr []) (\<lambda>n. [''/dev/mapper/a''])"
  have 1: "reduceVG ?E ''vg1'' ''b'' cache_pvs_b
     = (Inr (),
        cache_pvs_b
          \<lparr>self_devices := PyList [''/dev/mapper/a''], self_devices_stale := False,
           self_pvs := [(''/dev/mapper/b'', Stale ''/dev/mapper/b'')],
           self_vgs := [(''vg1'', Stale ''vg1'')],
           lvm_calls := [([''vgreduce'', ''vg1'', ''/dev/mapper/b''], PyList [''/dev/mapper/a''], True)],
           mp_queries := 1\<rparr>)"
    by (simp add: reduceVG_def run_command_def lvmcmd_run_def cached_devices_def
        getVGDevs_def invalidatepvs_def invalidatevgs_def sample_env_def PV_PREFIX_def
        cache_pvs_b_def LVMCache_init_def Let_def)
  have 2: "map_of (self_vgs (snd (reduceVG ?E ''vg1'' ''b'' cache_pvs_b))) ''vg1''
             = Some (Stale ''vg1'')"
    using invalidation_on_success_only [of ?E "''vg1''" "''b''" cache_pvs_b] 1
    by (metis snd_conv)
  show ?thesis by (rule conjI [OF 1 2])
qed

text \<open>
  The claim as stated fails.  After a failed \<open>vgreduce\<close> the PV of the cache is still the
  parsed record and the VG has no \<open>Stale\<close> entry; after a failed \<open>vgcreate\<close> the VG
  has no \<open>Stale\<close> entry either (the PV is \<open>Stale\<close>, from \<open>_initpvs\<close>).
\<close>

theorem reduceVG_failure_counterexample:
  "reduceVG (sample_env always_fails (\<lambda>n. [''/dev/mapper/a''])) ''vg1'' ''b'' cache_pvs_b
     = (Inl (VolumeGroupReduceError (LVMErr [''lvm''] 5 [] [''failed''])),
        cache_pvs_b
          \<lparr>self_devices := PyList [''/dev/mapper/a''], self_devices_stale := False,
           lvm_calls := [([''vgreduce'', ''vg1'', ''/dev/mapper/b''], PyList [''/dev/mapper/a''], True)],
           mp_queries := 2\<rparr>)
   \<and> self_pvs cache_pvs_b
       = [(''/dev/mapper/b'', Fresh (sample_pv ''/dev/mapper/b'' ''vg1'' ''3''))]
   \<and> self_vgs cache_pvs_b = []
   \<and> fst (createVG (sample_env fails_third (\<lambda>n. [''/dev/mapper/b'']))
             ''vg1'' [''b''] ''tag'' 128 False cache_pvs_b)
       = Inl (VolumeGroupCreateError (LVMErr [''vgcreate''] 5 [] [''failed'']))
   \<and> self_vgs (snd (createVG (sample_env fails_third (\<lambda>n. [''/dev/mapper/b'']))
                       ''vg1'' [''b''] ''tag'' 128 False cache_pvs_b)) = []
   \<and> self_pvs (snd (createVG (sample_env fails_third (\<lambda>n. [''/dev/mapper/b'']))
                       ''vg1'' [''b''] ''tag'' 128 False cache_pvs_b))
       = [(''/dev/mapper/b'', Stale ''/dev/mapper/b'')]
   \<and> lvm_calls (snd (createVG (sample_env fails_third (\<lambda>n. [''/dev/mapper/b'']))
                        ''vg1'' [''b''] ''tag'' 128 False cache_pvs_b))
       = [([''pvcreate'', ''--metadatasize'', ''128m'', ''--metadatacopies'', ''2'',
            ''--metadataignore'', ''y'', ''/dev/mapper/b''], PyList [''/dev/mapper/b''], True),
          ([''pvchange'', ''--metadataignore'', ''n'', ''/dev/mapper/b''],
           PyTuple [''/dev/mapper/b''], True),
          ([''vgcreate'', ''--physicalextentsize'', ''128m'', ''--addtag'', ''tag'', ''vg1'',
            ''/dev/mapper/b''], PyTuple [''/dev/mapper/b''], True),
          ([''vgcreate'', ''--physicalextentsize'', ''128m'', ''--addtag'', ''tag'', ''vg1'',
            ''/dev/mapper/b''], PyList [''/dev/mapper/b''], True)]"
proof -
  have s128: "show_nat 128 = ''128''"
    by (simp add: show_nat.simps)
  have cv: "createVG (sample_env fails_third (\<lambda>n. [''/dev/mapper/b'']))
               ''vg1'' [''b''] ''tag'' 128 False cache_pvs_b
     = (Inl (VolumeGroupCreateError (LVMErr [''vgcreate''] 5 [] [''failed''])),
        cache_pvs_b
          \<lparr>self_devices := PyList [''/dev/mapper/b''], self_devices_stale := False,
           self_pvs := [(''/dev/mapper/b'', Stale ''/dev/mapper/b'')],
           lvm_calls :=
             [([''pvcreate'', ''--metadatasize'', ''128m'', ''--metadatacopies'', ''2'',
                ''--metadataignore'', ''y'', ''/dev/mapper/b''], PyList [''/dev/mapper/b''], True),
              ([''pvchange'', ''--metadataignore'', ''n'', ''/dev/mapper/b''],
               PyTuple [''/dev/mapper/b''], True),
              ([''vgcreate'', ''--physicalextentsize'', ''128m'', ''--addtag'', ''tag'', ''vg1'',
                ''/dev/mapper/b''], PyTuple [''/dev/mapper/b''], True),
              ([''vgcreate'', ''--physicalextentsize'', ''128m'', ''--addtag'', ''tag'', ''vg1'',
                ''/dev/mapper/b''], PyList [''/dev/mapper/b''], True)],
           mp_queries := 1\<rparr>)"
    by (simp add: createVG_def initpvs_def createpv_def enable_metadata_area_def
        run_command_def lvmcmd_run_def cached_devices_def invalidate_devices_def
        invalidatepvs_def show_int_def s128 sample_env_def fails_third_def PV_PREFIX_def
        cache_pvs_b_def LVMCache_init_def Let_def)
  have rv: "reduceVG (sample_env always_fails (\<lambda>n. [''/dev/mapper/a''])) ''vg1'' ''b''
              cache_pvs_b
     = (Inl (VolumeGroupReduceError (LVMErr [''lvm''] 5 [] [''failed''])),
        cache_pvs_b
          \<lparr>self_devices := PyList [''/dev/mapper/a''], self_devices_stale := False,
           lvm_calls := [([''vgreduce'', ''vg1'', ''/dev/mapper/b''], PyList [''/dev/mapper/a''], True)],
           mp_queries := 2\<rparr>)"
    by (simp add: reduceVG_def run_command_def lvmcmd_run_def cached_devices_def
        invalidate_devices_def getVGDevs_def sample_env_def always_fails_def PV_PREFIX_def
        cache_pvs_b_def LVMCache_init_def Let_def)
  show ?thesis
    unfolding cv rv by (simp add: cache_pvs_b_def LVMCache_init_def)
qed

subsection \<open>Reloading all VGs\<close>























subsection \<open>Moving a PV that holds no data\<close>

lemma updatepvs_lines_inv:
  assumes "updatepvs_lines out pvs upd = (err, pvs', upd')"
    and "\<forall>k v. map_of upd k = Some v \<longrightarrow> map_of pvs k = Some v \<and> \<not> is_stale v"
  shows "\<forall>k v. map_of upd' k = Some v \<longrightarrow> map_of pvs' k = Some v \<and> \<not> is_stale v"
  using assms
proof (induction out arbitrary: pvs upd)
  case Nil
  then show ?case by simp
next
  case (Cons l out)
  show ?case
  proof (cases "pv_of_line l")
    case (Inl e)
    with Cons.prems show ?thesis
      by (simp add: updatepvs_lines_step del: updatepvs_lines.simps(2))
  next
    case (Inr pv)
    show ?thesis
    proof (cases "PV_name pv = UNKNOWN")
      case True
      with Cons.prems Inr have "updatepvs_lines out pvs upd = (err, pvs', upd')"
        by (simp add: updatepvs_lines_step del: updatepvs_lines.simps(2))
      then show ?thesis using Cons.prems(2) by (rule Cons.IH)
    next
      case False
      let ?pvs = "AList.update (PV_name pv) (Fresh pv) pvs"
      let ?upd = "AList.update (PV_name pv) (Fresh pv) upd"
      have s: "updatepvs_lines out ?pvs ?upd = (err, pvs', upd')"
        using Cons.prems(1) Inr False
        by (simp add: updatepvs_lines_step del: updatepvs_lines.simps(2))
      have i: "\<forall>k v. map_of ?upd k = Some v \<longrightarrow> map_of ?pvs k = Some v \<and> \<not> is_stale v"
        using Cons.prems(2) by (auto simp: update_conv')
      show ?thesis by (rule Cons.IH [OF s i])
    qed
  qed
qed

lemma updatepvs_lines_other_keys:
  assumes "\<forall>l \<in> set out. \<forall>p. pv_of_line l = Inr p \<longrightarrow> PV_name p = n \<or> PV_name p = UNKNOWN"
    and "k \<noteq> n"
  shows "map_of (fst (snd (updatepvs_lines out pvs upd))) k = map_of pvs k"
  using assms(1)
proof (induction out arbitrary: pvs upd)
  case Nil
  show ?case by simp
next
  case (Cons l out)
  show ?case
  proof (cases "pv_of_line l")
    case (Inl e)
    then show ?thesis
      by (simp add: updatepvs_lines_step del: updatepvs_lines.simps(2))
  next
    case (Inr pv)
    have r: "\<forall>l \<in> set out. \<forall>p. pv_of_line l = Inr p \<longrightarrow> PV_name p = n \<or> PV_name p = UNKNOWN"
      using Cons.prems by simp
    show ?thesis
    proof (cases "PV_name pv = UNKNOWN")
      case True
      with Inr Cons.IH [OF r] show ?thesis
        by (simp add: updatepvs_lines_step del: updatepvs_lines.simps(2))
    next
      case False
      with Inr Cons.prems have "PV_name pv = n" by auto
      with Inr False assms(2)
        Cons.IH [OF r, of "AList.update n (Fresh pv) pvs" "AList.update n (Fresh pv) upd"]
      show ?thesis
        by (simp add: updatepvs_lines_step update_conv' del: updatepvs_lines.simps(2))
    qed
  qed
qed

lemma remove_stale_nothing: "remove_stale [] d = d"
  by (simp add: remove_stale_def)

lemma updatepvs_locked_single:
  assumes "updatepvs_locked out [n] c = (Inr upd, c')" and "map_of upd n = Some pv"
  shows "c' = c\<lparr>self_pvs := fst (snd (updatepvs_lines out (self_pvs c) []))\<rparr>
         \<and> map_of (self_pvs c') n = Some pv \<and> \<not> is_stale pv"
proof -
  obtain err pvs' upd' where l: "updatepvs_lines out (self_pvs c) [] = (err, pvs', upd')"
    by (metis surj_pair)
  have e: "err = None" and u: "upd' = upd"
    using assms(1) l by (auto simp: updatepvs_locked_def Let_def split: option.splits)
  have has: "dict_has upd n"
    using assms(2) by (force simp: dict_has_def dest: map_of_SomeD)
  have c': "c' = c\<lparr>self_pvs := pvs'\<rparr>"
    using assms(1) l e u has
    by (simp add: updatepvs_locked_def Let_def remove_stale_nothing)
  have "\<forall>k v. map_of upd k = Some v \<longrightarrow> map_of pvs' k = Some v \<and> \<not> is_stale v"
    using updatepvs_lines_inv [OF l] u by simp
  with assms(2) c' l show ?thesis by simp
qed


lemma invalidatepvs_single:
  "invalidatepvs [n] c = c\<lparr>self_pvs := AList.update n (Stale n) (self_pvs c)\<rparr>"
  by (simp add: invalidatepvs_def)

text \<open>
  C9, as the code has it: \<open>movePV\<close> of a PV that holds no data.  \<open>fqpvname\<close> is applied
  to the source device by \<open>movePV\<close> and again by \<open>getPV\<close>, and a full name is its own
  full name.  \<open>getPV\<close> runs \<open>pvs\<close> for the source PV, which prints \<open>out\<close>.  When the PV
  that \<open>getPV\<close> returns has \<open>pe_alloc_count == "0"\<close>, \<open>movePV\<close> returns without an
  exception.  The only commands it has run are \<open>pvs\<close> commands for the source PV, so
  \<open>pvmove\<close> has not run, and the \<open>pvs\<close> command has not failed.  The VG map, the LV
  map, \<open>_freshlv\<close> and the two stale flags are unchanged, the statistics count one more
  miss, and the source PV is the reloaded, parsed entry.  The PV map is the one that
  storing every row of \<open>out\<close> gives: the other entries of the PV map are unchanged when
  \<open>out\<close> has rows for the source PV only.
\<close>

theorem movePV_no_data:
  assumes idem: "fqpvname E (fqpvname E src_device) = fqpvname E src_device"
    and run: "run_command_error E (PVS_CMD @ [fqpvname E src_device]) (PyTuple []) True
                (stats_miss (invalidatepvs [fqpvname E src_device] c)) = ((out, err), c1)"
    and get: "getPV E (fqpvname E src_device) (invalidatepvs [fqpvname E src_device] c)
                = (Inr pv, c2)"
    and zero: "entry_attr PV_pe_alloc_count pv = Inr ''0''"
  shows "movePV E vgName src_device dst_devices c = (Inr (), c2)
    \<and> (\<exists>calls. lvm_calls c2 = lvm_calls c @ calls
          \<and> (\<forall>x \<in> set calls. fst x = PVS_CMD @ [fqpvname E src_device]))
    \<and> self_vgs c2 = self_vgs c \<and> self_lvs c2 = self_lvs c
    \<and> self_freshlv c2 = self_freshlv c
    \<and> self_stalepv c2 = self_stalepv c \<and> self_stalevg c2 = self_stalevg c
    \<and> self_stats c2 = miss (self_stats c)
    \<and> map_of (self_pvs c2) (fqpvname E src_device) = Some pv \<and> \<not> is_stale pv
    \<and> ((\<forall>l \<in> set out. \<forall>p. pv_of_line l = Inr p \<longrightarrow>
            PV_name p = fqpvname E src_device \<or> PV_name p = UNKNOWN)
         \<longrightarrow> (\<forall>k. k \<noteq> fqpvname E src_device \<longrightarrow>
                 map_of (self_pvs c2) k = map_of (self_pvs c) k))
    \<and> err = None
    \<and> self_pvs c2 = fst (snd (updatepvs_lines out (self_pvs c1) []))
    \<and> self_pvs c1 = AList.update (fqpvname E src_device) (Stale (fqpvname E src_device))
                       (self_pvs c)"
proof -
  let ?n = "fqpvname E src_device"
  let ?ci = "invalidatepvs [?n] c"
  let ?cm = "stats_miss ?ci"
  have fresh: "\<not> is_stale pv"
    using zero by (cases pv) simp_all
  have st: "map_of (self_pvs ?ci) ?n = Some (Stale ?n)"
    by (simp add: invalidatepvs_map_of)
  have rel: "reload_single_pv E ?n ?cm = (Inr pv, c2)"
    using get st idem by (simp add: getPV_def getPv_def)
  have noerr: "err = None"
  proof (rule ccontr)
    assume "err \<noteq> None"
    then obtain e where e: "err = Some e" by auto
    have "is_stale pv"
      using rel run e
      by (auto simp: reload_single_pv_def update_stale_pvs_locked_def make_unreadable_def
          Let_def split: option.splits prod.splits if_splits)
    with fresh show False by simp
  qed
  obtain upd where up: "updatepvs_locked out [?n] c1 = (Inr upd, c2)"
    and m: "map_of upd ?n = Some pv"
    using rel run noerr
    by (auto simp: reload_single_pv_def Let_def split: option.splits prod.splits sum.splits)
  note s = updatepvs_locked_single [OF up m]
  have c2: "c2 = c1\<lparr>self_pvs := fst (snd (updatepvs_lines out (self_pvs c1) []))\<rparr>"
    using s by blast
  have cf: "cache_fields c1 = cache_fields ?cm"
    using run by (rule run_command_error_cache)
  note f = cache_fieldsD [OF cf]
  have 1: "movePV E vgName src_device dst_devices c = (Inr (), c2)"
    using get zero by (simp add: movePV_def Let_def)
  obtain calls where calls: "lvm_calls c1 = lvm_calls ?cm @ calls"
    "\<forall>x \<in> set calls. fst x = PVS_CMD @ [?n]"
    using run_command_error_calls [OF run] by blast
  have 2: "\<exists>calls. lvm_calls c2 = lvm_calls c @ calls
          \<and> (\<forall>x \<in> set calls. fst x = PVS_CMD @ [?n])"
    using calls by (auto simp: c2 stats_miss_def invalidatepvs_def)
  have 3: "self_vgs c2 = self_vgs c" "self_lvs c2 = self_lvs c"
    "self_freshlv c2 = self_freshlv c" "self_stalepv c2 = self_stalepv c"
    "self_stalevg c2 = self_stalevg c" "self_stats c2 = miss (self_stats c)"
    using f by (simp_all add: c2 stats_miss_def invalidatepvs_def)
  have 4: "map_of (self_pvs c2) ?n = Some pv" using s by blast
  have 5: "\<forall>k. k \<noteq> ?n \<longrightarrow> map_of (self_pvs c2) k = map_of (self_pvs c) k"
    if h: "\<forall>l \<in> set out. \<forall>p. pv_of_line l = Inr p \<longrightarrow> PV_name p = ?n \<or> PV_name p = UNKNOWN"
  proof (intro allI impI)
    fix k assume k: "k \<noteq> ?n"
    have "map_of (self_pvs c2) k = map_of (self_pvs c1) k"
      using updatepvs_lines_other_keys [OF h k, of "self_pvs c1" "[]"] by (simp add: c2)
    also have "\<dots> = map_of (self_pvs ?ci) k"
      using f(5) by (simp add: stats_miss_def)
    also have "\<dots> = map_of (self_pvs c) k"
      using k by (simp add: invalidatepvs_map_of)
    finally show "map_of (self_pvs c2) k = map_of (self_pvs c) k" .
  qed
  have 6: "self_pvs c2 = fst (snd (updatepvs_lines out (self_pvs c1) []))"
    by (simp add: c2)
  have 7: "self_pvs c1 = AList.update ?n (Stale ?n) (self_pvs c)"
    using f(5) by (simp add: stats_miss_def invalidatepvs_single)
  from 1 2 3 4 fresh 5 noerr 6 7 show ?thesis by blast
qed

lemma pv_of_line_b0: "pv_of_line pv_line_b0 = Inr (sample_pv ''/dev/mapper/b'' ''vg1'' ''0'')"
  by (simp add: pv_of_line_def pv_line_b0_def sample_pv_def FIELDS_LEN_values
      SEPARATOR_def strip_def is_space_def PV_fromlvm_def basename_def Let_def)

theorem movePV_no_data_witness:
  "movePV (sample_env (\<lambda>n. Inr [pv_line_b0]) (\<lambda>n. [''/dev/mapper/a'']))
       ''vg1'' ''b'' [''c''] cache_pvs_ab
     = (Inr (),
        cache_pvs_ab
          \<lparr>self_devices := PyList [''/dev/mapper/a''], self_devices_stale := False,
           self_pvs := [(''/dev/mapper/a'', Stale ''/dev/mapper/a''),
                        (''/dev/mapper/b'', Fresh (sample_pv ''/dev/mapper/b'' ''vg1'' ''0''))],
           self_stats := \<lparr>hits = 0, misses = 1\<rparr>,
           lvm_calls := [(PVS_CMD @ [''/dev/mapper/b''], PyList [''/dev/mapper/a''], True)],
           mp_queries := 1\<rparr>)"
proof -
  let ?E = "sample_env (\<lambda>n. Inr [pv_line_b0]) (\<lambda>n. [''/dev/mapper/a''])"
  let ?c2 = "cache_pvs_ab
          \<lparr>self_devices := PyList [''/dev/mapper/a''], self_devices_stale := False,
           self_pvs := [(''/dev/mapper/a'', Stale ''/dev/mapper/a''),
                        (''/dev/mapper/b'', Fresh (sample_pv ''/dev/mapper/b'' ''vg1'' ''0''))],
           self_stats := \<lparr>hits = 0, misses = 1\<rparr>,
           lvm_calls := [(PVS_CMD @ [''/dev/mapper/b''], PyList [''/dev/mapper/a''], True)],
           mp_queries := 1\<rparr>"
  have fq: "fqpvname ?E ''b'' = ''/dev/mapper/b''"
    by (simp add: sample_env_def PV_PREFIX_def)
  have idem: "fqpvname ?E (fqpvname ?E ''b'') = fqpvname ?E ''b''"
    by (simp add: sample_env_def PV_PREFIX_def)
  obtain out err c1 where run:
    "run_command_error ?E (PVS_CMD @ [fqpvname ?E ''b'']) (PyTuple []) True
       (stats_miss (invalidatepvs [fqpvname ?E ''b''] cache_pvs_ab)) = ((out, err), c1)"
    by (metis surj_pair)
  have get: "getPV ?E (fqpvname ?E ''b'') (invalidatepvs [fqpvname ?E ''b''] cache_pvs_ab)
               = (Inr (Fresh (sample_pv ''/dev/mapper/b'' ''vg1'' ''0'')), ?c2)"
    unfolding fq
    by (simp add: getPV_def getPv_def reload_single_pv_def run_command_error_def
        run_command_def lvmcmd_run_def cached_devices_def updatepvs_locked_def
        updatepvs_lines_step pv_of_line_b0 remove_stale_def dict_has_def stats_miss_def
        miss_def invalidatepvs_def sample_env_def PV_PREFIX_def UNKNOWN_def sample_pv_def
        cache_pvs_ab_def LVMCache_init_def CacheStats_init_def Let_def
        del: updatepvs_lines.simps(2))
  have zero: "entry_attr PV_pe_alloc_count (Fresh (sample_pv ''/dev/mapper/b'' ''vg1'' ''0''))
                = Inr ''0''"
    by (simp add: sample_pv_def)
  show ?thesis
    using movePV_no_data [OF idem run get zero, of "''vg1''" "[''c'']"] by blast
qed

lemma pv_of_line_c0: "pv_of_line pv_line_c0 = Inr (sample_pv ''/dev/mapper/c'' ''vg1'' ''0'')"
  by (simp add: pv_of_line_def pv_line_c0_def sample_pv_def FIELDS_LEN_values
      SEPARATOR_def strip_def is_space_def PV_fromlvm_def basename_def Let_def)

text \<open>
  The claim as stated fails.  \<open>movePV\<close> of \<open>/dev/mapper/b\<close>, which holds no data, when the
  \<open>pvs\<close> command for it also prints a row for \<open>/dev/mapper/c\<close>: the call returns, and
  \<open>/dev/mapper/c\<close>, which the cache did not know, is now a parsed entry of the PV map.
  The statistics have one more miss, and the device list has been loaded.
\<close>

theorem movePV_other_row_counterexample:
  "movePV (sample_env (\<lambda>n. Inr [pv_line_b0, pv_line_c0]) (\<lambda>n. [''/dev/mapper/a'']))
       ''vg1'' ''b'' [''c''] cache_pvs_ab
     = (Inr (),
        cache_pvs_ab
          \<lparr>self_devices := PyList [''/dev/mapper/a''], self_devices_stale := False,
           self_pvs := [(''/dev/mapper/a'', Stale ''/dev/mapper/a''),
                        (''/dev/mapper/b'', Fresh (sample_pv ''/dev/mapper/b'' ''vg1'' ''0'')),
                        (''/dev/mapper/c'', Fresh (sample_pv ''/dev/mapper/c'' ''vg1'' ''0''))],
           self_stats := \<lparr>hits = 0, misses = 1\<rparr>,
           lvm_calls := [(PVS_CMD @ [''/dev/mapper/b''], PyList [''/dev/mapper/a''], True)],
           mp_queries := 1\<rparr>)
   \<and> map_of (self_pvs cache_pvs_ab) ''/dev/mapper/c'' = None
   \<and> map_of (self_pvs (snd (movePV
         (sample_env (\<lambda>n. Inr [pv_line_b0, pv_line_c0]) (\<lambda>n. [''/dev/mapper/a'']))
         ''vg1'' ''b'' [''c''] cache_pvs_ab))) ''/dev/mapper/c''
       = Some (Fresh (sample_pv ''/dev/mapper/c'' ''vg1'' ''0''))
   \<and> self_stats cache_pvs_ab = \<lparr>hits = 0, misses = 0\<rparr>
   \<and> self_devices cache_pvs_ab = PyNone \<and> self_devices_stale cache_pvs_ab"
proof -
  have mv: "movePV (sample_env (\<lambda>n. Inr [pv_line_b0, pv_line_c0]) (\<lambda>n. [''/dev/mapper/a'']))
       ''vg1'' ''b'' [''c''] cache_pvs_ab
     = (Inr (),
        cache_pvs_ab
          \<lparr>self_devices := PyList [''/dev/mapper/a''], self_devices_stale := False,
           self_pvs := [(''/dev/mapper/a'', Stale ''/dev/mapper/a''),
                        (''/dev/mapper/b'', Fresh (sample_pv ''/dev/mapper/b'' ''vg1'' ''0'')),
                        (''/dev/mapper/c'', Fresh (sample_pv ''/dev/mapper/c'' ''vg1'' ''0''))],
           self_stats := \<lparr>hits = 0, misses = 1\<rparr>,
           lvm_calls := [(PVS_CMD @ [''/dev/mapper/b''], PyList [''/dev/mapper/a''], True)],
           mp_queries := 1\<rparr>)"
    by (simp add: movePV_def getPV_def getPv_def reload_single_pv_def run_command_error_def
        run_command_def lvmcmd_run_def cached_devices_def updatepvs_locked_def
        updatepvs_lines_step pv_of_line_b0 pv_of_line_c0 remove_stale_def dict_has_def
        stats_miss_def miss_def invalidatepvs_def sample_env_def PV_PREFIX_def UNKNOWN_def
        sample_pv_def cache_pvs_ab_def LVMCache_init_def CacheStats_init_def Let_def
        del: updatepvs_lines.simps(2))
  show ?thesis
    unfolding mv by (simp add: cache_pvs_ab_def LVMCache_init_def CacheStats_init_def)
qed

end
